theory Spec2Isabelle
  imports Complex_Main "HOL-Library.Char_ord" "HOL-Library.List_Lexorder"
begin

section \<open>Python values, exceptions and the operator enumeration\<close>

text \<open>
  The operator enumeration \<^verbatim>\<open>whylogs.proto.Op\<close>. The protocol module is not among the
  sources; the twelve members are the ones \<^verbatim>\<open>constraints.py\<close> names.
\<close>

datatype Op = LT | LE | EQ | NE | GE | GT | MATCH | NOMATCH | BTWN | IN_SET | CONTAIN_SET | EQ_SET

text \<open>The exceptions the module raises, or lets escape from the operations it calls.\<close>

datatype error = ValueError | TypeError | AssertionError | AttributeError | KeyError | ReError

text \<open>
  A Python \<^verbatim>\<open>float\<close> is a finite value, an infinity or NaN. No operation of the module
  does arithmetic on a float; it only compares, and Python compares numbers of every kind
  exactly, so a finite float is modelled by the rational it denotes.
\<close>

datatype pyfloat = Fin rat | PosInf | NegInf | NaN

text \<open>
  The values that reach the constraints: \<^verbatim>\<open>None\<close>, booleans, integers, floats, strings,
  and \<open>PObj n\<close> for any other object (number \<open>n\<close>), which is truthy, equal only to itself,
  unordered and not iterable, as an instance of \<^verbatim>\<open>object\<close> is.
\<close>

datatype pyval = PNone | PBool bool | PInt int | PFloat pyfloat | PStr string | PObj nat

fun is_str :: "pyval \<Rightarrow> bool" where
  "is_str (PStr s) = True"
| "is_str v = False"

fun is_bool :: "pyval \<Rightarrow> bool" where
  "is_bool (PBool b) = True"
| "is_bool v = False"

text \<open>\<^verbatim>\<open>isinstance(v, (int, float))\<close>: \<^verbatim>\<open>bool\<close> is a subclass of \<^verbatim>\<open>int\<close>.\<close>

fun is_int_or_float :: "pyval \<Rightarrow> bool" where
  "is_int_or_float (PBool b) = True"
| "is_int_or_float (PInt i) = True"
| "is_int_or_float (PFloat f) = True"
| "is_int_or_float v = False"

text \<open>\<^verbatim>\<open>isinstance(v, numbers.Real)\<close>: integers, floats and, as integers, booleans.\<close>

fun is_Real :: "pyval \<Rightarrow> bool" where
  "is_Real (PBool b) = True"
| "is_Real (PInt i) = True"
| "is_Real (PFloat f) = True"
| "is_Real v = False"

text \<open>Truth value testing, as \<^verbatim>\<open>if v:\<close> and \<^verbatim>\<open>any\<close> do it.\<close>

fun truthy :: "pyval \<Rightarrow> bool" where
  "truthy PNone = False"
| "truthy (PBool b) = b"
| "truthy (PInt i) = (i \<noteq> 0)"
| "truthy (PFloat (Fin r)) = (r \<noteq> 0)"
| "truthy (PFloat f) = True"
| "truthy (PStr s) = (s \<noteq> [])"
| "truthy (PObj n) = True"

text \<open>The number a value denotes in a comparison, when it is one.\<close>

fun num_of :: "pyval \<Rightarrow> pyfloat option" where
  "num_of (PBool b) = Some (Fin (if b then 1 else 0))"
| "num_of (PInt i) = Some (Fin (of_int i))"
| "num_of (PFloat f) = Some f"
| "num_of v = None"

fun f_lt :: "pyfloat \<Rightarrow> pyfloat \<Rightarrow> bool" where
  "f_lt NaN y = False"
| "f_lt x NaN = False"
| "f_lt (Fin a) (Fin b) = (a < b)"
| "f_lt x NegInf = False"
| "f_lt NegInf y = True"
| "f_lt PosInf y = False"
| "f_lt x PosInf = True"

fun f_eq :: "pyfloat \<Rightarrow> pyfloat \<Rightarrow> bool" where
  "f_eq NaN y = False"
| "f_eq x NaN = False"
| "f_eq x y = (x = y)"

definition f_le :: "pyfloat \<Rightarrow> pyfloat \<Rightarrow> bool" where
  "f_le x y = (f_lt x y \<or> f_eq x y)"

text \<open>
  \<^verbatim>\<open>a == b\<close> never raises. Numbers compare by value across kinds (\<^verbatim>\<open>True == 1 == 1.0\<close>),
  NaN equals nothing.
\<close>

fun py_eq :: "pyval \<Rightarrow> pyval \<Rightarrow> bool" where
  "py_eq a b =
     (case (num_of a, num_of b) of
        (Some x, Some y) \<Rightarrow> f_eq x y
      | (None, None) \<Rightarrow> a = b
      | _ \<Rightarrow> False)"

text \<open>
  The order comparisons: numbers with numbers, strings with strings (by code point, here
  by byte), and \<^verbatim>\<open>TypeError\<close> for every other pair.
\<close>

definition py_cmp :: "(pyfloat \<Rightarrow> pyfloat \<Rightarrow> bool) \<Rightarrow> (string \<Rightarrow> string \<Rightarrow> bool) \<Rightarrow>
    pyval \<Rightarrow> pyval \<Rightarrow> error + bool" where
  "py_cmp nf sf a b =
     (case (num_of a, num_of b) of
        (Some x, Some y) \<Rightarrow> Inr (nf x y)
      | _ \<Rightarrow> (case (a, b) of (PStr s, PStr t) \<Rightarrow> Inr (sf s t) | _ \<Rightarrow> Inl TypeError))"

definition py_lt :: "pyval \<Rightarrow> pyval \<Rightarrow> error + bool" where
  "py_lt a b = py_cmp f_lt (\<lambda>s t. s < t) a b"

definition py_le :: "pyval \<Rightarrow> pyval \<Rightarrow> error + bool" where
  "py_le a b = py_cmp f_le (\<lambda>s t. s \<le> t) a b"

definition py_gt :: "pyval \<Rightarrow> pyval \<Rightarrow> error + bool" where
  "py_gt a b = py_cmp (\<lambda>x y. f_lt y x) (\<lambda>s t. t < s) a b"

definition py_ge :: "pyval \<Rightarrow> pyval \<Rightarrow> error + bool" where
  "py_ge a b = py_cmp (\<lambda>x y. f_le y x) (\<lambda>s t. t \<le> s) a b"

text \<open>Sequencing of computations that may raise.\<close>

definition ebind :: "error + 'a \<Rightarrow> ('a \<Rightarrow> error + 'b) \<Rightarrow> error + 'b" where
  "ebind m f = (case m of Inl e \<Rightarrow> Inl e | Inr x \<Rightarrow> f x)"


section \<open>The libraries the module calls\<close>

text \<open>
  A theta sketch of the \<^verbatim>\<open>datasketches\<close> library, which is not part of the repository. The
  module only creates an empty sketch, feeds it items and hands it back to the library, so a
  sketch is modelled by the items fed to it, in order.
\<close>

datatype sketch = Theta "pyval list"

text \<open>
  What the libraries compute is left open; every definition below takes it as the
  parameter \<open>L\<close>:
  \<^item> \<open>re_compiles p\<close>: \<^verbatim>\<open>re.compile(p)\<close> returns (otherwise it raises \<^verbatim>\<open>re.error\<close>);
  \<^item> \<open>re_match p s\<close>: \<^verbatim>\<open>re.compile(p).match(s) is not None\<close>;
  \<^item> \<open>py_str v\<close> and \<open>py_str_set xs\<close>: how an f-string renders a value and a set;
  \<^item> \<open>theta_accepts v\<close>: \<^verbatim>\<open>theta.update(v)\<close> takes an item of this kind (otherwise
    \<^verbatim>\<open>TypeError\<close>);
  \<^item> \<open>a_not_b a b\<close>: \<^verbatim>\<open>round(theta_a_not_b().compute(a, b).get_estimate(), 1)\<close>;
  \<^item> \<open>to_double i\<close>: the double an integer is stored as, or the exception the conversion
    raises;
  \<^item> \<open>field_value v\<close> and \<open>field_string v\<close>: what a message field for a literal operand
    (\<^verbatim>\<open>value\<close>, \<^verbatim>\<open>lower_value\<close>, \<^verbatim>\<open>upper_value\<close>) and for a field name (\<^verbatim>\<open>second_field\<close>,
    \<^verbatim>\<open>third_field\<close>) holds after it was given \<open>v\<close>, or the exception it raises for a value
    that is not of its type.
\<close>

record pylib =
  re_compiles :: "string \<Rightarrow> bool"
  re_match :: "string \<Rightarrow> string \<Rightarrow> bool"
  py_str :: "pyval \<Rightarrow> string"
  py_str_set :: "pyval list \<Rightarrow> string"
  theta_accepts :: "pyval \<Rightarrow> bool"
  a_not_b :: "sketch \<Rightarrow> sketch \<Rightarrow> rat"
  to_double :: "int \<Rightarrow> error + pyfloat"
  field_value :: "pyval \<Rightarrow> error + pyval"
  field_string :: "pyval \<Rightarrow> error + pyval"

text \<open>\<^verbatim>\<open>Op.Name(op)\<close>: the member's name.\<close>

fun Op_Name :: "Op \<Rightarrow> string" where
  "Op_Name LT = ''LT''"
| "Op_Name LE = ''LE''"
| "Op_Name EQ = ''EQ''"
| "Op_Name NE = ''NE''"
| "Op_Name GE = ''GE''"
| "Op_Name GT = ''GT''"
| "Op_Name MATCH = ''MATCH''"
| "Op_Name NOMATCH = ''NOMATCH''"
| "Op_Name BTWN = ''BTWN''"
| "Op_Name IN_SET = ''IN_SET''"
| "Op_Name CONTAIN_SET = ''CONTAIN_SET''"
| "Op_Name EQ_SET = ''EQ_SET''"

section \<open>ValueConstraint\<close>

text \<open>
  The operand \<open>x\<close> a function of \<^verbatim>\<open>_value_funcs\<close> is bound to: the literal value, or the
  pattern object \<^verbatim>\<open>re.compile(regex_pattern)\<close>.
\<close>

datatype operand = Literal pyval | Pattern string

text \<open>
  \<^verbatim>\<open>_value_funcs[op](x)(v)\<close>. A pattern object has no order and equals no value of
  \<^typ>\<open>pyval\<close>; no value of \<^typ>\<open>pyval\<close> has an attribute \<^verbatim>\<open>match\<close>; a pattern's
  \<^verbatim>\<open>match\<close> takes a string only. The table has no entry for the other four operators.
\<close>

fun value_funcs :: "pylib \<Rightarrow> Op \<Rightarrow> operand \<Rightarrow> pyval \<Rightarrow> error + bool" where
  "value_funcs L LT (Literal x) v = py_lt v x"
| "value_funcs L LE (Literal x) v = py_le v x"
| "value_funcs L EQ (Literal x) v = Inr (py_eq v x)"
| "value_funcs L NE (Literal x) v = Inr (\<not> py_eq v x)"
| "value_funcs L GE (Literal x) v = py_ge v x"
| "value_funcs L GT (Literal x) v = py_gt v x"
| "value_funcs L MATCH (Literal x) v = Inl AttributeError"
| "value_funcs L NOMATCH (Literal x) v = Inl AttributeError"
| "value_funcs L EQ (Pattern p) v = Inr False"
| "value_funcs L NE (Pattern p) v = Inr True"
| "value_funcs L MATCH (Pattern p) (PStr s) = Inr (re_match L p s)"
| "value_funcs L NOMATCH (Pattern p) (PStr s) = Inr (\<not> re_match L p s)"
| "value_funcs L MATCH (Pattern p) v = Inl TypeError"
| "value_funcs L NOMATCH (Pattern p) v = Inl TypeError"
| "value_funcs L LT (Pattern p) v = Inl TypeError"
| "value_funcs L LE (Pattern p) v = Inl TypeError"
| "value_funcs L GE (Pattern p) v = Inl TypeError"
| "value_funcs L GT (Pattern p) v = Inl TypeError"
| "value_funcs L op x v = Inl KeyError"

definition in_value_funcs :: "Op \<Rightarrow> bool" where
  "in_value_funcs op = (op \<in> {LT, LE, EQ, NE, GE, GT, MATCH, NOMATCH})"

text \<open>
  An instance. \<open>vc_name\<close> is the attribute \<^verbatim>\<open>_name\<close>. Only one of the attributes
  \<^verbatim>\<open>value\<close> and \<^verbatim>\<open>regex_pattern\<close> exists on an instance: the other one is \<open>None\<close> here,
  and reading it raises \<^verbatim>\<open>AttributeError\<close>. \<open>vc_func\<close> is the operand the closure
  \<^verbatim>\<open>func\<close> was bound to; its operator is \<^verbatim>\<open>op\<close> at construction.
\<close>

record ValueConstraint =
  vc_name :: "string option"
  vc_verbose :: bool
  vc_op :: Op
  vc_total :: int
  vc_failures :: int
  vc_value :: "pyval option"
  vc_regex_pattern :: "string option"
  vc_func :: "Op \<times> operand"

text \<open>\<^verbatim>\<open>ValueConstraint.__init__(op, value, regex_pattern, name, verbose)\<close>.\<close>

definition ValueConstraint_init :: "pylib \<Rightarrow> Op \<Rightarrow> pyval \<Rightarrow> string option \<Rightarrow> string option \<Rightarrow> bool
    \<Rightarrow> error + ValueConstraint" where
  "ValueConstraint_init L op value regex_pattern name verbose =
     (if value \<noteq> PNone \<and> regex_pattern = None then
        (if \<not> in_value_funcs op then Inl KeyError
         else Inr \<lparr>vc_name = name, vc_verbose = verbose, vc_op = op, vc_total = 0,
                   vc_failures = 0, vc_value = Some value, vc_regex_pattern = None,
                   vc_func = (op, Literal value)\<rparr>)
      else if regex_pattern \<noteq> None \<and> value = PNone then
        (case regex_pattern of
           None \<Rightarrow> Inl ValueError
         | Some p \<Rightarrow>
             if \<not> in_value_funcs op then Inl KeyError
             else if \<not> re_compiles L p then Inl ReError
             else Inr \<lparr>vc_name = name, vc_verbose = verbose, vc_op = op, vc_total = 0,
                       vc_failures = 0, vc_value = None, vc_regex_pattern = Some p,
                       vc_func = (op, Pattern p)\<rparr>)
      else Inl ValueError)"

text \<open>
  The property \<^verbatim>\<open>name\<close>. It tests the truth value of the attribute \<^verbatim>\<open>value\<close>, not its
  presence, and falls back to the attribute \<^verbatim>\<open>regex_pattern\<close>.
\<close>

definition ValueConstraint_name :: "pylib \<Rightarrow> ValueConstraint \<Rightarrow> error + string" where
  "ValueConstraint_name L self =
     (if (case vc_value self of None \<Rightarrow> False | Some v \<Rightarrow> truthy v) then
        (case vc_name self of
           Some n \<Rightarrow> Inr n
         | None \<Rightarrow> (case vc_value self of
                      None \<Rightarrow> Inl AttributeError
                    | Some v \<Rightarrow> Inr (''value '' @ Op_Name (vc_op self) @ '' '' @ py_str L v)))
      else
        (case vc_name self of
           Some n \<Rightarrow> Inr n
         | None \<Rightarrow> (case vc_regex_pattern self of
                      None \<Rightarrow> Inl AttributeError
                    | Some p \<Rightarrow> Inr (''value '' @ Op_Name (vc_op self) @ '' '' @ p))))"

text \<open>
  What evaluating the message of a \<^verbatim>\<open>logger.info\<close> call leaves behind: the exception
  raised while rendering \<^verbatim>\<open>self.name\<close>, if any.
\<close>

definition logged :: "error + string \<Rightarrow> error option" where
  "logged r = (case r of Inl e \<Rightarrow> Some e | Inr s \<Rightarrow> None)"

text \<open>
  \<^verbatim>\<open>ValueConstraint.update(v)\<close> mutates the instance and returns nothing. The model returns
  the instance as the call leaves it, and the exception that escaped, if one did.
\<close>

definition ValueConstraint_update :: "pylib \<Rightarrow> ValueConstraint \<Rightarrow> pyval \<Rightarrow> ValueConstraint \<times> error option" where
  "ValueConstraint_update L self v =
     (let self1 = self\<lparr>vc_total := vc_total self + 1\<rparr> in
      if vc_op self1 \<in> {MATCH, NOMATCH} \<and> \<not> is_str v then
        (let self2 = self1\<lparr>vc_failures := vc_failures self1 + 1\<rparr> in
         if vc_verbose self2 then (self2, logged (ValueConstraint_name L self2))
         else (self2, None))
      else
        (case value_funcs L (fst (vc_func self1)) (snd (vc_func self1)) v of
           Inl e \<Rightarrow> (self1, Some e)
         | Inr ok \<Rightarrow>
             if \<not> ok then
               (let self2 = self1\<lparr>vc_failures := vc_failures self1 + 1\<rparr> in
                if vc_verbose self2 then (self2, logged (ValueConstraint_name L self2))
                else (self2, None))
             else (self1, None)))"

text \<open>
  \<^verbatim>\<open>ValueConstraint.merge(other)\<close>. An instance is always truthy, so \<^verbatim>\<open>not other\<close> holds
  for \<^verbatim>\<open>None\<close> only. The three assertions read \<^verbatim>\<open>name\<close>, \<^verbatim>\<open>op\<close> and \<^verbatim>\<open>value\<close> of both
  operands, \<^verbatim>\<open>self\<close> first.
\<close>

definition vc_get_value :: "ValueConstraint \<Rightarrow> error + pyval" where
  "vc_get_value self = (case vc_value self of None \<Rightarrow> Inl AttributeError | Some v \<Rightarrow> Inr v)"

definition ValueConstraint_merge :: "pylib \<Rightarrow> ValueConstraint \<Rightarrow> ValueConstraint option
    \<Rightarrow> error + ValueConstraint" where
  "ValueConstraint_merge L self other' =
     (case other' of
        None \<Rightarrow> Inr self
      | Some other \<Rightarrow>
          ebind (ValueConstraint_name L self) (\<lambda>n1.
          ebind (ValueConstraint_name L other) (\<lambda>n2.
          if n1 \<noteq> n2 then Inl AssertionError
          else if vc_op self \<noteq> vc_op other then Inl AssertionError
          else
            ebind (vc_get_value self) (\<lambda>v1.
            ebind (vc_get_value other) (\<lambda>v2.
            if \<not> py_eq v1 v2 then Inl AssertionError
            else
              ebind (vc_get_value self) (\<lambda>value.
              ebind (ValueConstraint_name L self) (\<lambda>name.
              ebind (ValueConstraint_init L (vc_op self) value None (Some name) (vc_verbose self))
                (\<lambda>merged_value_constraint.
                   Inr (merged_value_constraint
                         \<lparr>vc_total := vc_total self + vc_total other,
                          vc_failures := vc_failures self + vc_failures other\<rparr>)))))))))"


section \<open>SummaryConstraint\<close>

text \<open>
  The bundle \<^verbatim>\<open>update\<close> receives is a dictionary whose entries are the number summary (an
  object with named fields) and the two column sketches.
\<close>

datatype bundle_item = NumberSummary "string \<Rightarrow> pyval option" | ThetaSketch sketch

type_synonym update_dict = "string \<Rightarrow> bundle_item option"

text \<open>
  \<^verbatim>\<open>getattr(s, f)\<close>: a field name that is not a string is a \<^verbatim>\<open>TypeError\<close>, a missing field
  an \<^verbatim>\<open>AttributeError\<close>; a sketch has none of the fields.
\<close>

fun py_getattr :: "bundle_item \<Rightarrow> pyval \<Rightarrow> error + pyval" where
  "py_getattr (NumberSummary s) (PStr f) =
     (case s f of None \<Rightarrow> Inl AttributeError | Some x \<Rightarrow> Inr x)"
| "py_getattr (ThetaSketch t) (PStr f) = Inl AttributeError"
| "py_getattr s f = Inl TypeError"

text \<open>
  \<^verbatim>\<open>_summary_funcs1[op](f, v)(s)\<close> for the six comparisons, and the entry of \<^verbatim>\<open>BTWN\<close>,
  whose chained comparison evaluates the second half only if the first holds.
\<close>

fun summary_funcs1 :: "Op \<Rightarrow> pyval \<Rightarrow> pyval \<Rightarrow> bundle_item \<Rightarrow> error + bool" where
  "summary_funcs1 LT f v s = ebind (py_getattr s f) (\<lambda>x. py_lt x v)"
| "summary_funcs1 LE f v s = ebind (py_getattr s f) (\<lambda>x. py_le x v)"
| "summary_funcs1 EQ f v s = ebind (py_getattr s f) (\<lambda>x. Inr (py_eq x v))"
| "summary_funcs1 NE f v s = ebind (py_getattr s f) (\<lambda>x. Inr (\<not> py_eq x v))"
| "summary_funcs1 GE f v s = ebind (py_getattr s f) (\<lambda>x. py_ge x v)"
| "summary_funcs1 GT f v s = ebind (py_getattr s f) (\<lambda>x. py_gt x v)"
| "summary_funcs1 op f v s = Inl KeyError"

definition summary_funcs1_BTWN :: "pyval \<Rightarrow> pyval \<Rightarrow> pyval \<Rightarrow> bundle_item \<Rightarrow> error + bool" where
  "summary_funcs1_BTWN f v1 v2 s =
     ebind (py_getattr s f) (\<lambda>x.
     ebind (py_le v1 x) (\<lambda>b. if b then py_le x v2 else Inr False))"

text \<open>
  The entries of the set relations: \<^verbatim>\<open>_summary_funcs1[op](reference)(column)\<close>. The
  library's \<^verbatim>\<open>compute\<close> takes sketches only.
\<close>

fun summary_funcs1_set :: "pylib \<Rightarrow> Op \<Rightarrow> sketch \<Rightarrow> bundle_item \<Rightarrow> error + bool" where
  "summary_funcs1_set L IN_SET reference_theta_sketch (ThetaSketch column_theta_sketch) =
     Inr (a_not_b L column_theta_sketch reference_theta_sketch = 0)"
| "summary_funcs1_set L CONTAIN_SET reference_theta_sketch (ThetaSketch column_theta_sketch) =
     Inr (a_not_b L reference_theta_sketch column_theta_sketch = 0)"
| "summary_funcs1_set L EQ_SET reference_theta_sketch (ThetaSketch column_theta_sketch) =
     Inr (a_not_b L column_theta_sketch reference_theta_sketch
            = a_not_b L reference_theta_sketch column_theta_sketch
          \<and> a_not_b L reference_theta_sketch column_theta_sketch = 0)"
| "summary_funcs1_set L op reference_theta_sketch (ThetaSketch column_theta_sketch) = Inl KeyError"
| "summary_funcs1_set L op reference_theta_sketch (NumberSummary s) = Inl TypeError"

text \<open>\<^verbatim>\<open>_summary_funcs2[op](f, f2)(s)\<close> and its entry of \<^verbatim>\<open>BTWN\<close>.\<close>

fun summary_funcs2 :: "Op \<Rightarrow> pyval \<Rightarrow> pyval \<Rightarrow> bundle_item \<Rightarrow> error + bool" where
  "summary_funcs2 LT f f2 s = ebind (py_getattr s f) (\<lambda>x. ebind (py_getattr s f2) (\<lambda>y. py_lt x y))"
| "summary_funcs2 LE f f2 s = ebind (py_getattr s f) (\<lambda>x. ebind (py_getattr s f2) (\<lambda>y. py_le x y))"
| "summary_funcs2 EQ f f2 s =
     ebind (py_getattr s f) (\<lambda>x. ebind (py_getattr s f2) (\<lambda>y. Inr (py_eq x y)))"
| "summary_funcs2 NE f f2 s =
     ebind (py_getattr s f) (\<lambda>x. ebind (py_getattr s f2) (\<lambda>y. Inr (\<not> py_eq x y)))"
| "summary_funcs2 GE f f2 s = ebind (py_getattr s f) (\<lambda>x. ebind (py_getattr s f2) (\<lambda>y. py_ge x y))"
| "summary_funcs2 GT f f2 s = ebind (py_getattr s f) (\<lambda>x. ebind (py_getattr s f2) (\<lambda>y. py_gt x y))"
| "summary_funcs2 op f f2 s = Inl KeyError"

definition summary_funcs2_BTWN :: "pyval \<Rightarrow> pyval \<Rightarrow> pyval \<Rightarrow> bundle_item \<Rightarrow> error + bool" where
  "summary_funcs2_BTWN f f2 f3 s =
     ebind (py_getattr s f2) (\<lambda>lo.
     ebind (py_getattr s f) (\<lambda>x.
     ebind (py_le lo x) (\<lambda>b.
       if b then ebind (py_getattr s f3) (\<lambda>hi. py_le x hi) else Inr False)))"

definition in_summary_funcs :: "Op \<Rightarrow> bool" where
  "in_summary_funcs op = (op \<in> {LT, LE, EQ, NE, GE, GT})"

text \<open>The closure stored in the attribute \<^verbatim>\<open>func\<close>: the table, the entry and the operands.\<close>

datatype sfunc =
    Funcs1 Op string pyval
  | Funcs1_BTWN string pyval pyval
  | Funcs2 Op string pyval
  | Funcs2_BTWN string pyval pyval

fun apply_sfunc :: "sfunc \<Rightarrow> bundle_item \<Rightarrow> error + bool" where
  "apply_sfunc (Funcs1 op f v) s = summary_funcs1 op (PStr f) v s"
| "apply_sfunc (Funcs1_BTWN f v1 v2) s = summary_funcs1_BTWN (PStr f) v1 v2 s"
| "apply_sfunc (Funcs2 op f f2) s = summary_funcs2 op (PStr f) f2 s"
| "apply_sfunc (Funcs2_BTWN f f2 f3) s = summary_funcs2_BTWN (PStr f) f2 f3 s"

text \<open>
  A Python set is modelled by the list of its members, in the order iteration yields them.
  \<open>py_set_add\<close> is \<^verbatim>\<open>set.add\<close>: a member equal to the new one leaves the set as it is.
  \<open>py_set\<close> is \<^verbatim>\<open>set(xs)\<close> for a sequence.
\<close>

definition py_set_add :: "pyval list \<Rightarrow> pyval \<Rightarrow> pyval list" where
  "py_set_add xs x = (if list_ex (\<lambda>y. py_eq y x) xs then xs else xs @ [x])"

definition py_set :: "pyval list \<Rightarrow> pyval list" where
  "py_set xs = foldl py_set_add [] xs"

text \<open>
  The argument \<^verbatim>\<open>reference_set\<close> of the constructor: \<^verbatim>\<open>None\<close>, a set, another sequence of
  values (a list, a tuple, a frozenset), an iterator or generator over values, or a single
  value. A sequence is falsy when it is empty; an iterator is always truthy.
\<close>

datatype refarg = RNone | RSet "pyval list" | RSeq "pyval list" | RIter "pyval list" | RVal pyval

fun ref_truthy :: "refarg \<Rightarrow> bool" where
  "ref_truthy RNone = False"
| "ref_truthy (RSet xs) = (xs \<noteq> [])"
| "ref_truthy (RSeq xs) = (xs \<noteq> [])"
| "ref_truthy (RIter xs) = True"
| "ref_truthy (RVal v) = truthy v"

text \<open>
  The cast of an argument that is not a set: \<^verbatim>\<open>set(reference_set)\<close>, with the
  \<^verbatim>\<open>TypeError\<close> of a value that cannot be iterated. A string iterates over its characters.
\<close>

fun as_reference_set :: "refarg \<Rightarrow> error + pyval list" where
  "as_reference_set (RSet xs) = Inr xs"
| "as_reference_set (RSeq xs) = Inr (py_set xs)"
| "as_reference_set (RIter xs) = Inr (py_set xs)"
| "as_reference_set (RVal (PStr s)) = Inr (py_set (map (\<lambda>c. PStr [c]) s))"
| "as_reference_set r = Inl TypeError"

text \<open>\<^verbatim>\<open>get_string_and_numbers_sets\<close>: the loop over the reference set, with both accumulators.\<close>

fun string_and_numbers_loop :: "pyval list \<Rightarrow> pyval list \<times> pyval list \<Rightarrow> pyval list \<times> pyval list" where
  "string_and_numbers_loop [] (string_set, numbers_set) = (string_set, numbers_set)"
| "string_and_numbers_loop (item # rest) (string_set, numbers_set) =
     (if is_str item then string_and_numbers_loop rest (py_set_add string_set item, numbers_set)
      else if is_Real item \<and> \<not> is_bool item then
        string_and_numbers_loop rest (string_set, py_set_add numbers_set item)
      else string_and_numbers_loop rest (string_set, numbers_set))"

definition get_string_and_numbers_sets :: "pyval list \<Rightarrow> pyval list \<times> pyval list" where
  "get_string_and_numbers_sets reference_set = string_and_numbers_loop reference_set ([], [])"

text \<open>\<^verbatim>\<open>create_theta_sketch(ref_set)\<close>: a new sketch, updated with every item of the target set.\<close>

fun theta_update_all :: "pylib \<Rightarrow> pyval list \<Rightarrow> sketch \<Rightarrow> error + sketch" where
  "theta_update_all L [] theta = Inr theta"
| "theta_update_all L (item # rest) (Theta fed) =
     (if theta_accepts L item then theta_update_all L rest (Theta (fed @ [item]))
      else Inl TypeError)"

definition create_theta_sketch :: "pylib \<Rightarrow> pyval list \<Rightarrow> pyval list option \<Rightarrow> error + sketch" where
  "create_theta_sketch L reference_set ref_set =
     theta_update_all L (case ref_set of None \<Rightarrow> reference_set | Some r \<Rightarrow> r) (Theta [])"

text \<open>
  An instance. \<open>sc_name\<close> is the attribute \<^verbatim>\<open>_name\<close>. The six attributes of the reference
  set exist on an instance of a set relation only, \<^verbatim>\<open>func\<close> on the others.
\<close>

record SummaryConstraint =
  sc_verbose :: bool
  sc_name :: "string option"
  sc_op :: Op
  sc_first_field :: string
  sc_second_field :: pyval
  sc_third_field :: pyval
  sc_total :: int
  sc_failures :: int
  sc_value :: pyval
  sc_upper_value :: pyval
  sc_reference_set :: "pyval list option"
  sc_ref_string_set :: "pyval list option"
  sc_ref_numbers_set :: "pyval list option"
  sc_reference_theta_sketch :: "sketch option"
  sc_string_theta_sketch :: "sketch option"
  sc_numbers_theta_sketch :: "sketch option"
  sc_func :: "sfunc option"

definition is_set_op :: "Op \<Rightarrow> bool" where
  "is_set_op op = (op \<in> {IN_SET, CONTAIN_SET, EQ_SET})"

text \<open>The assignments at the head of \<^verbatim>\<open>SummaryConstraint.__init__\<close>.\<close>

definition sc_fresh :: "string \<Rightarrow> Op \<Rightarrow> pyval \<Rightarrow> pyval \<Rightarrow> pyval \<Rightarrow> pyval \<Rightarrow> string option \<Rightarrow> bool
    \<Rightarrow> SummaryConstraint" where
  "sc_fresh first_field op value upper_value second_field third_field name verbose =
     \<lparr>sc_verbose = verbose, sc_name = name, sc_op = op, sc_first_field = first_field,
      sc_second_field = second_field, sc_third_field = third_field, sc_total = 0,
      sc_failures = 0, sc_value = value, sc_upper_value = upper_value,
      sc_reference_set = None, sc_ref_string_set = None, sc_ref_numbers_set = None,
      sc_reference_theta_sketch = None, sc_string_theta_sketch = None,
      sc_numbers_theta_sketch = None, sc_func = None\<rparr>"

text \<open>
  \<^verbatim>\<open>SummaryConstraint.__init__(first_field, op, value, upper_value, second_field,
  third_field, reference_set, name, verbose)\<close>.
\<close>

definition SummaryConstraint_init :: "pylib \<Rightarrow> string \<Rightarrow> Op \<Rightarrow> pyval \<Rightarrow> pyval \<Rightarrow> pyval \<Rightarrow> pyval
    \<Rightarrow> refarg \<Rightarrow> string option \<Rightarrow> bool \<Rightarrow> error + SummaryConstraint" where
  "SummaryConstraint_init L first_field op value upper_value second_field third_field
      reference_set name verbose =
     (let self = sc_fresh first_field op value upper_value second_field third_field name verbose in
      if is_set_op op then
        (if truthy value \<or> truthy upper_value \<or> truthy second_field \<or> truthy third_field
            \<or> \<not> ref_truthy reference_set
         then Inl ValueError
         else
           ebind (as_reference_set reference_set) (\<lambda>reference_set.
           (case get_string_and_numbers_sets reference_set of (ref_string_set, ref_numbers_set) \<Rightarrow>
           ebind (create_theta_sketch L reference_set None) (\<lambda>reference_theta_sketch.
           ebind (create_theta_sketch L reference_set (Some ref_string_set)) (\<lambda>string_theta_sketch.
           ebind (create_theta_sketch L reference_set (Some ref_numbers_set)) (\<lambda>numbers_theta_sketch.
             Inr (self\<lparr>sc_reference_set := Some reference_set,
                       sc_ref_string_set := Some ref_string_set,
                       sc_ref_numbers_set := Some ref_numbers_set,
                       sc_reference_theta_sketch := Some reference_theta_sketch,
                       sc_string_theta_sketch := Some string_theta_sketch,
                       sc_numbers_theta_sketch := Some numbers_theta_sketch\<rparr>)))))))
      else if op = BTWN then
        (if value \<noteq> PNone \<and> upper_value \<noteq> PNone \<and> second_field = PNone \<and> third_field = PNone then
           (if \<not> is_int_or_float value \<or> \<not> is_int_or_float upper_value then Inl TypeError
            else
              ebind (py_ge value upper_value) (\<lambda>b.
                if b then Inl ValueError
                else Inr (self\<lparr>sc_func := Some (Funcs1_BTWN first_field value upper_value)\<rparr>)))
         else if second_field \<noteq> PNone \<and> third_field \<noteq> PNone \<and> value = PNone \<and> upper_value = PNone then
           (if \<not> is_str second_field \<or> \<not> is_str third_field then Inl TypeError
            else Inr (self\<lparr>sc_func := Some (Funcs2_BTWN first_field second_field third_field)\<rparr>))
         else Inl ValueError)
      else
        (if upper_value \<noteq> PNone \<or> third_field \<noteq> PNone then Inl ValueError
         else if value \<noteq> PNone \<and> second_field = PNone then
           (if \<not> in_summary_funcs op then Inl KeyError
            else Inr (self\<lparr>sc_func := Some (Funcs1 op first_field value)\<rparr>))
         else if second_field \<noteq> PNone \<and> value = PNone then
           (if \<not> in_summary_funcs op then Inl KeyError
            else Inr (self\<lparr>sc_func := Some (Funcs2 op first_field second_field)\<rparr>))
         else Inl ValueError))"


text \<open>Reading an attribute that exists on some instances only.\<close>

definition attr :: "'a option \<Rightarrow> error + 'a" where
  "attr a = (case a of None \<Rightarrow> Inl AttributeError | Some x \<Rightarrow> Inr x)"

text \<open>
  The property \<^verbatim>\<open>name\<close>. A reference set of more than twenty members is rendered by its
  first twenty, the closing brace replaced by an ellipsis.
\<close>

definition SummaryConstraint_name :: "pylib \<Rightarrow> SummaryConstraint \<Rightarrow> error + string" where
  "SummaryConstraint_name L self =
     (if is_set_op (sc_op self) then
        ebind (attr (sc_reference_set self)) (\<lambda>reference_set.
          (let reference_set_str =
                 (if length reference_set > 20
                  then butlast (py_str_set L (take 20 reference_set)) @ '', ...}''
                  else py_str_set L reference_set)
           in Inr (case sc_name self of
                     Some n \<Rightarrow> n
                   | None \<Rightarrow> ''summary '' @ sc_first_field self @ '' '' @ Op_Name (sc_op self)
                              @ '' '' @ reference_set_str)))
      else if sc_op self = BTWN then
        (let lower_target = (if sc_value self \<noteq> PNone then sc_value self else sc_second_field self);
             upper_target = (if sc_upper_value self \<noteq> PNone then sc_upper_value self
                             else sc_third_field self)
         in Inr (case sc_name self of
                   Some n \<Rightarrow> n
                 | None \<Rightarrow> ''summary '' @ sc_first_field self @ '' '' @ Op_Name (sc_op self)
                            @ '' '' @ py_str L lower_target @ '' and '' @ py_str L upper_target))
      else
        Inr (case sc_name self of
               Some n \<Rightarrow> n
             | None \<Rightarrow> ''summary '' @ sc_first_field self @ '' '' @ Op_Name (sc_op self)
                        @ '' '' @ py_str L (sc_value self) @ ''/'' @ py_str L (sc_second_field self)))"

text \<open>\<^verbatim>\<open>update_dict[key]\<close>.\<close>

definition dict_item :: "update_dict \<Rightarrow> string \<Rightarrow> error + bundle_item" where
  "dict_item d k = (case d k of None \<Rightarrow> Inl KeyError | Some x \<Rightarrow> Inr x)"

text \<open>
  The verdict of one bundle: for a set relation both entries of the list given to \<^verbatim>\<open>all\<close>
  are evaluated, the string sketch first; otherwise \<^verbatim>\<open>func\<close> is applied to the summary.
\<close>

definition sc_passes :: "pylib \<Rightarrow> SummaryConstraint \<Rightarrow> bundle_item \<Rightarrow> bundle_item \<Rightarrow> bundle_item
    \<Rightarrow> error + bool" where
  "sc_passes L self summ column_string_theta column_number_theta =
     (if is_set_op (sc_op self) then
        ebind (attr (sc_string_theta_sketch self)) (\<lambda>string_theta_sketch.
        ebind (summary_funcs1_set L (sc_op self) string_theta_sketch column_string_theta) (\<lambda>b1.
        ebind (attr (sc_numbers_theta_sketch self)) (\<lambda>numbers_theta_sketch.
        ebind (summary_funcs1_set L (sc_op self) numbers_theta_sketch column_number_theta) (\<lambda>b2.
          Inr (b1 \<and> b2)))))
      else ebind (attr (sc_func self)) (\<lambda>func. apply_sfunc func summ))"

text \<open>
  \<^verbatim>\<open>SummaryConstraint.update(update_dict)\<close>: the instance as the call leaves it, and the
  exception that escaped, if one did.
\<close>

definition SummaryConstraint_update :: "pylib \<Rightarrow> SummaryConstraint \<Rightarrow> update_dict
    \<Rightarrow> SummaryConstraint \<times> error option" where
  "SummaryConstraint_update L self update_dict =
     (let self1 = self\<lparr>sc_total := sc_total self + 1\<rparr> in
      case ebind (dict_item update_dict ''number_summary'') (\<lambda>summ.
           ebind (dict_item update_dict ''string_theta'') (\<lambda>column_string_theta.
           ebind (dict_item update_dict ''number_theta'') (\<lambda>column_number_theta.
             sc_passes L self1 summ column_string_theta column_number_theta))) of
        Inl e \<Rightarrow> (self1, Some e)
      | Inr ok \<Rightarrow>
          if \<not> ok then
            (let self2 = self1\<lparr>sc_failures := sc_failures self1 + 1\<rparr> in
             if sc_verbose self2 then (self2, logged (SummaryConstraint_name L self2))
             else (self2, None))
          else (self1, None))"

text \<open>
  \<^verbatim>\<open>SummaryConstraint.merge(other)\<close>: the assertions in the order of the source, then a new
  instance from the constructor, holding the sums of the counters.
\<close>

definition sc_set_eq :: "pyval list \<Rightarrow> pyval list \<Rightarrow> bool" where
  "sc_set_eq xs ys = (list_all (\<lambda>x. list_ex (\<lambda>y. py_eq x y) ys) xs
                      \<and> list_all (\<lambda>y. list_ex (\<lambda>x. py_eq x y) xs) ys)"

definition SummaryConstraint_merge :: "pylib \<Rightarrow> SummaryConstraint \<Rightarrow> SummaryConstraint option
    \<Rightarrow> error + SummaryConstraint" where
  "SummaryConstraint_merge L self other' =
     (case other' of
        None \<Rightarrow> Inr self
      | Some other \<Rightarrow>
          ebind (SummaryConstraint_name L self) (\<lambda>n1.
          ebind (SummaryConstraint_name L other) (\<lambda>n2.
          if n1 \<noteq> n2 then Inl AssertionError
          else if sc_op self \<noteq> sc_op other then Inl AssertionError
          else if \<not> py_eq (sc_value self) (sc_value other) then Inl AssertionError
          else if sc_first_field self \<noteq> sc_first_field other then Inl AssertionError
          else if \<not> py_eq (sc_second_field self) (sc_second_field other) then Inl AssertionError
          else
            ebind
              (if is_set_op (sc_op self) then
                 ebind (attr (sc_reference_set self)) (\<lambda>r1.
                 ebind (attr (sc_reference_set other)) (\<lambda>r2.
                 if \<not> sc_set_eq r1 r2 then Inl AssertionError
                 else
                   ebind (SummaryConstraint_name L self) (\<lambda>name.
                     SummaryConstraint_init L (sc_first_field self) (sc_op self) PNone PNone PNone
                       PNone (RSet r1) (Some name) (sc_verbose self))))
               else if sc_op self = BTWN then
                 (if \<not> py_eq (sc_upper_value self) (sc_upper_value other) then Inl AssertionError
                  else if \<not> py_eq (sc_third_field self) (sc_third_field other)
                  then Inl AssertionError
                  else
                    ebind (SummaryConstraint_name L self) (\<lambda>name.
                      SummaryConstraint_init L (sc_first_field self) (sc_op self) (sc_value self)
                        (sc_upper_value self) (sc_second_field self) (sc_third_field self) RNone
                        (Some name) (sc_verbose self)))
               else
                 ebind (SummaryConstraint_name L self) (\<lambda>name.
                   SummaryConstraint_init L (sc_first_field self) (sc_op self) (sc_value self)
                     PNone (sc_second_field self) PNone RNone (Some name) (sc_verbose self)))
              (\<lambda>merged_constraint.
                 Inr (merged_constraint
                       \<lparr>sc_total := sc_total self + sc_total other,
                        sc_failures := sc_failures self + sc_failures other\<rparr>)))))"


section \<open>The collections ValueConstraints and SummaryConstraints\<close>

text \<open>
  A dictionary keyed by constraint name is a list of pairs with no key twice, in insertion
  order. \<open>dict_setitem\<close> is \<^verbatim>\<open>d[k] = v\<close>, \<open>dict_get\<close> is \<^verbatim>\<open>d.get(k)\<close>.
\<close>

fun dict_setitem :: "(string \<times> 'c) list \<Rightarrow> string \<Rightarrow> 'c \<Rightarrow> (string \<times> 'c) list" where
  "dict_setitem [] k v = [(k, v)]"
| "dict_setitem ((k', v') # d) k v =
     (if k' = k then (k, v) # d else (k', v') # dict_setitem d k v)"

definition dict_get :: "(string \<times> 'c) list \<Rightarrow> string \<Rightarrow> 'c option" where
  "dict_get d k = map_of d k"

record ValueConstraints =
  vcs_constraints :: "(string \<times> ValueConstraint) list"

record SummaryConstraints =
  scs_constraints :: "(string \<times> SummaryConstraint) list"

text \<open>
  Attribute lookup on a collection. \<^verbatim>\<open>__init__\<close> sets one attribute, \<^verbatim>\<open>constraints\<close>; the
  classes define methods only, and no method of that or a similar name.
\<close>

definition ValueConstraints_getattr :: "ValueConstraints \<Rightarrow> string
    \<Rightarrow> error + (string \<times> ValueConstraint) list" where
  "ValueConstraints_getattr self a =
     (if a = ''constraints'' then Inr (vcs_constraints self) else Inl AttributeError)"

definition SummaryConstraints_getattr :: "SummaryConstraints \<Rightarrow> string
    \<Rightarrow> error + (string \<times> SummaryConstraint) list" where
  "SummaryConstraints_getattr self a =
     (if a = ''constraints'' then Inr (scs_constraints self) else Inl AttributeError)"

text \<open>\<^verbatim>\<open>__getitem__(name)\<close>, with the attribute names as the source spells them.\<close>

definition ValueConstraints_getitem :: "ValueConstraints \<Rightarrow> string
    \<Rightarrow> error + ValueConstraint option" where
  "ValueConstraints_getitem self name =
     ebind (ValueConstraints_getattr self ''contraints'') (\<lambda>contraints.
       if contraints \<noteq> [] then
         ebind (ValueConstraints_getattr self ''constraints'') (\<lambda>constraints.
           Inr (dict_get constraints name))
       else Inr None)"

definition SummaryConstraints_getitem :: "SummaryConstraints \<Rightarrow> string
    \<Rightarrow> error + SummaryConstraint option" where
  "SummaryConstraints_getitem self name =
     ebind (SummaryConstraints_getattr self ''contraints'') (\<lambda>contraints.
       if contraints \<noteq> [] then
         ebind (SummaryConstraints_getattr self ''constraints'') (\<lambda>constraints.
           Inr (dict_get constraints name))
       else Inr None)"

text \<open>
  The loop of \<^verbatim>\<open>merge\<close> iterates the dictionary itself, which yields its keys, and
  unpacks every key into \<^verbatim>\<open>name, constraint\<close>: a string of two characters gives two strings
  of one character, any other string a \<^verbatim>\<open>ValueError\<close>.
\<close>

fun unpack_key :: "string \<Rightarrow> error + string \<times> string" where
  "unpack_key [a, b] = Inr ([a], [b])"
| "unpack_key k = Inl ValueError"

text \<open>\<^verbatim>\<open>constraint.merge\<close> for the string \<^verbatim>\<open>constraint\<close>: \<^verbatim>\<open>str\<close> has no such attribute.\<close>

definition str_merge :: "string \<Rightarrow> 'c option \<Rightarrow> error + 'c" where
  "str_merge constraint other = Inl AttributeError"

fun merge_loop :: "string list \<Rightarrow> (string \<times> 'c) list \<Rightarrow> (string \<times> 'c) list
    \<Rightarrow> error + (string \<times> 'c) list" where
  "merge_loop [] other_constraints merged_constraints = Inr merged_constraints"
| "merge_loop (key # keys) other_constraints merged_constraints =
     ebind (unpack_key key) (\<lambda>(name, constraint).
     ebind (str_merge constraint (dict_get other_constraints name)) (\<lambda>m.
       merge_loop keys other_constraints (dict_setitem merged_constraints name m)))"

text \<open>
  \<^verbatim>\<open>merge(other)\<close>. A collection is always truthy, so \<^verbatim>\<open>not other\<close> holds for \<^verbatim>\<open>None\<close>
  only; \<^verbatim>\<open>not other.constraints\<close> holds for the empty dictionary.
\<close>

definition ValueConstraints_merge :: "ValueConstraints \<Rightarrow> ValueConstraints option
    \<Rightarrow> error + ValueConstraints" where
  "ValueConstraints_merge self other' =
     (case other' of
        None \<Rightarrow> Inr self
      | Some other \<Rightarrow>
          if vcs_constraints other = [] then Inr self
          else
            ebind (merge_loop (map fst (vcs_constraints self)) (vcs_constraints other)
                     (vcs_constraints other))
              (\<lambda>merged_constraints. Inr \<lparr>vcs_constraints = merged_constraints\<rparr>))"

definition SummaryConstraints_merge :: "SummaryConstraints \<Rightarrow> SummaryConstraints option
    \<Rightarrow> error + SummaryConstraints" where
  "SummaryConstraints_merge self other' =
     (case other' of
        None \<Rightarrow> Inr self
      | Some other \<Rightarrow>
          if scs_constraints other = [] then Inr self
          else
            ebind (merge_loop (map fst (scs_constraints self)) (scs_constraints other)
                     (scs_constraints other))
              (\<lambda>merged_constraints. Inr \<lparr>scs_constraints = merged_constraints\<rparr>))"

section \<open>Messages\<close>

text \<open>
  Modelled from the spec: the message types \<^verbatim>\<open>ValueConstraintMsg\<close>,
  \<^verbatim>\<open>SummaryBetweenConstraintMsg\<close> and \<^verbatim>\<open>SummaryConstraintMsg\<close> of \<^verbatim>\<open>whylogs.proto\<close>, which
  is not among the sources. The spec gives their fields: name, operator, verbose and the
  operand variants, of which a message carries the ones that were set; it gives no field
  for a counter. The spec does not give the types of the operand fields, so what such a
  field holds after it was given a value is the library's \<open>field_value\<close> and
  \<open>field_string\<close>. A keyword argument that is \<^verbatim>\<open>None\<close> leaves its field unset
  (\<open>msg_field\<close>); \<^verbatim>\<open>HasField\<close> tells whether a field is set.
\<close>

record ValueConstraintMsg =
  vm_name :: string
  vm_op :: Op
  vm_value :: "pyval option"
  vm_regex_pattern :: "string option"
  vm_verbose :: bool

record SummaryBetweenConstraintMsg =
  bm_lower_value :: "pyval option"
  bm_upper_value :: "pyval option"
  bm_second_field :: "pyval option"
  bm_third_field :: "pyval option"

record SummaryConstraintMsg =
  sm_name :: string
  sm_first_field :: string
  sm_op :: Op
  sm_verbose :: bool
  sm_value :: "pyval option"
  sm_second_field :: "pyval option"
  sm_between :: "SummaryBetweenConstraintMsg option"
  sm_reference_set :: "pyval list option"

definition msg_field :: "(pyval \<Rightarrow> error + pyval) \<Rightarrow> pyval \<Rightarrow> error + pyval option" where
  "msg_field field v =
     (if v = PNone then Inr None else ebind (field v) (\<lambda>stored. Inr (Some stored)))"

definition HasField :: "'a option \<Rightarrow> bool" where
  "HasField f = (f \<noteq> None)"

text \<open>
  The field \<^verbatim>\<open>reference_set\<close> is a \<^verbatim>\<open>ListValue\<close> of \<^verbatim>\<open>google.protobuf\<close>. Its \<^verbatim>\<open>extend\<close>
  appends every item as a \<^verbatim>\<open>Value\<close>: \<^verbatim>\<open>None\<close>, a boolean and a string as they are, an
  integer and a float as a double; it refuses a value of another kind with
  \<^verbatim>\<open>ValueError\<close>. Iterating the list gives the stored values back, so an integer comes
  back as a float.
\<close>

fun ListValue_item :: "pylib \<Rightarrow> pyval \<Rightarrow> error + pyval" where
  "ListValue_item L PNone = Inr PNone"
| "ListValue_item L (PBool b) = Inr (PBool b)"
| "ListValue_item L (PStr s) = Inr (PStr s)"
| "ListValue_item L (PInt i) = ebind (to_double L i) (\<lambda>d. Inr (PFloat d))"
| "ListValue_item L (PFloat f) = Inr (PFloat f)"
| "ListValue_item L (PObj n) = Inl ValueError"

fun ListValue_extend :: "pylib \<Rightarrow> pyval list \<Rightarrow> pyval list \<Rightarrow> error + pyval list" where
  "ListValue_extend L values [] = Inr values"
| "ListValue_extend L values (item # rest) =
     ebind (ListValue_item L item) (\<lambda>stored. ListValue_extend L (values @ [stored]) rest)"

text \<open>
  \<^verbatim>\<open>ValueConstraint.to_protobuf\<close> tests the presence of the attribute \<^verbatim>\<open>value\<close>. The
  arguments of the message are evaluated, \<^verbatim>\<open>self.name\<close> first, before the message stores
  them.
\<close>

definition ValueConstraint_to_protobuf :: "pylib \<Rightarrow> ValueConstraint \<Rightarrow> error + ValueConstraintMsg" where
  "ValueConstraint_to_protobuf L self =
     (case vc_value self of
        Some value \<Rightarrow>
          ebind (ValueConstraint_name L self) (\<lambda>name.
          ebind (msg_field (field_value L) value) (\<lambda>stored.
            Inr \<lparr>vm_name = name, vm_op = vc_op self, vm_value = stored,
                 vm_regex_pattern = None, vm_verbose = vc_verbose self\<rparr>))
      | None \<Rightarrow>
          ebind (ValueConstraint_name L self) (\<lambda>name.
          ebind (attr (vc_regex_pattern self)) (\<lambda>regex_pattern.
            Inr \<lparr>vm_name = name, vm_op = vc_op self, vm_value = None,
                 vm_regex_pattern = Some regex_pattern, vm_verbose = vc_verbose self\<rparr>)))"

text \<open>
  \<^verbatim>\<open>ValueConstraint.from_protobuf\<close> reads \<^verbatim>\<open>msg.value\<close> whether or not the field is set, and
  passes no pattern to the constructor. Reading an unset field gives the default of its
  type, the parameter \<open>unset\<close>.
\<close>

definition ValueConstraint_from_protobuf :: "pylib \<Rightarrow> pyval \<Rightarrow> ValueConstraintMsg
    \<Rightarrow> error + ValueConstraint" where
  "ValueConstraint_from_protobuf L unset msg =
     ValueConstraint_init L (vm_op msg)
       (case vm_value msg of None \<Rightarrow> unset | Some v \<Rightarrow> v) None (Some (vm_name msg))
       (vm_verbose msg)"

text \<open>\<^verbatim>\<open>SummaryConstraint.to_protobuf\<close>.\<close>

definition SummaryConstraint_to_protobuf :: "pylib \<Rightarrow> SummaryConstraint
    \<Rightarrow> error + SummaryConstraintMsg" where
  "SummaryConstraint_to_protobuf L self =
     (if is_set_op (sc_op self) then
        ebind (attr (sc_reference_set self)) (\<lambda>reference_set.
        ebind (ListValue_extend L [] reference_set) (\<lambda>reference_set_msg.
        ebind (SummaryConstraint_name L self) (\<lambda>name.
          Inr \<lparr>sm_name = name, sm_first_field = sc_first_field self, sm_op = sc_op self,
               sm_verbose = sc_verbose self, sm_value = None, sm_second_field = None,
               sm_between = None, sm_reference_set = Some reference_set_msg\<rparr>)))
      else if sc_op self = BTWN then
        ebind
          (if sc_second_field self = PNone \<and> sc_third_field self = PNone then
             ebind (msg_field (field_value L) (sc_value self)) (\<lambda>lower_value.
             ebind (msg_field (field_value L) (sc_upper_value self)) (\<lambda>upper_value.
               Inr \<lparr>bm_lower_value = lower_value, bm_upper_value = upper_value,
                    bm_second_field = None, bm_third_field = None\<rparr>))
           else
             ebind (msg_field (field_string L) (sc_second_field self)) (\<lambda>second_field.
             ebind (msg_field (field_string L) (sc_third_field self)) (\<lambda>third_field.
               Inr \<lparr>bm_lower_value = None, bm_upper_value = None,
                    bm_second_field = second_field, bm_third_field = third_field\<rparr>)))
          (\<lambda>summary_between_constraint_msg.
             ebind (SummaryConstraint_name L self) (\<lambda>name.
               Inr \<lparr>sm_name = name, sm_first_field = sc_first_field self, sm_op = sc_op self,
                    sm_verbose = sc_verbose self, sm_value = None, sm_second_field = None,
                    sm_between = Some summary_between_constraint_msg,
                    sm_reference_set = None\<rparr>))
      else if sc_second_field self = PNone then
        ebind (SummaryConstraint_name L self) (\<lambda>name.
        ebind (msg_field (field_value L) (sc_value self)) (\<lambda>value.
          Inr \<lparr>sm_name = name, sm_first_field = sc_first_field self, sm_op = sc_op self,
               sm_verbose = sc_verbose self, sm_value = value,
               sm_second_field = None, sm_between = None, sm_reference_set = None\<rparr>))
      else
        ebind (SummaryConstraint_name L self) (\<lambda>name.
        ebind (msg_field (field_string L) (sc_second_field self)) (\<lambda>second_field.
          Inr \<lparr>sm_name = name, sm_first_field = sc_first_field self, sm_op = sc_op self,
               sm_verbose = sc_verbose self, sm_value = None,
               sm_second_field = second_field, sm_between = None,
               sm_reference_set = None\<rparr>)))"

text \<open>
  \<^verbatim>\<open>SummaryConstraint.from_protobuf\<close>. A message whose \<^verbatim>\<open>between\<close> part carries neither the
  two values alone nor the two fields alone falls through both tests: the method returns
  \<^verbatim>\<open>None\<close>.
\<close>

definition SummaryConstraint_from_protobuf :: "pylib \<Rightarrow> SummaryConstraintMsg
    \<Rightarrow> error + SummaryConstraint option" where
  "SummaryConstraint_from_protobuf L msg =
     (if HasField (sm_reference_set msg) \<and> \<not> HasField (sm_value msg)
         \<and> \<not> HasField (sm_second_field msg) \<and> \<not> HasField (sm_between msg) then
        ebind (SummaryConstraint_init L (sm_first_field msg) (sm_op msg) PNone PNone PNone PNone
                 (RSet (py_set (the (sm_reference_set msg)))) (Some (sm_name msg)) (sm_verbose msg))
          (\<lambda>c. Inr (Some c))
      else if HasField (sm_value msg) \<and> \<not> HasField (sm_second_field msg)
         \<and> \<not> HasField (sm_between msg) \<and> \<not> HasField (sm_reference_set msg) then
        ebind (SummaryConstraint_init L (sm_first_field msg) (sm_op msg) (the (sm_value msg))
                 PNone PNone PNone RNone (Some (sm_name msg)) (sm_verbose msg))
          (\<lambda>c. Inr (Some c))
      else if HasField (sm_second_field msg) \<and> \<not> HasField (sm_value msg)
         \<and> \<not> HasField (sm_between msg) \<and> \<not> HasField (sm_reference_set msg) then
        ebind (SummaryConstraint_init L (sm_first_field msg) (sm_op msg) PNone PNone
                 (the (sm_second_field msg)) PNone RNone (Some (sm_name msg)) (sm_verbose msg))
          (\<lambda>c. Inr (Some c))
      else if HasField (sm_between msg) \<and> \<not> HasField (sm_value msg)
         \<and> \<not> HasField (sm_second_field msg) \<and> \<not> HasField (sm_reference_set msg) then
        (let between = the (sm_between msg) in
         if HasField (bm_lower_value between) \<and> HasField (bm_upper_value between)
            \<and> \<not> HasField (bm_second_field between) \<and> \<not> HasField (bm_third_field between) then
           ebind (SummaryConstraint_init L (sm_first_field msg) (sm_op msg)
                    (the (bm_lower_value between)) (the (bm_upper_value between)) PNone PNone
                    RNone (Some (sm_name msg)) (sm_verbose msg))
             (\<lambda>c. Inr (Some c))
         else if HasField (bm_second_field between) \<and> HasField (bm_third_field between)
            \<and> \<not> HasField (bm_lower_value between) \<and> \<not> HasField (bm_upper_value between) then
           ebind (SummaryConstraint_init L (sm_first_field msg) (sm_op msg) PNone PNone
                    (the (bm_second_field between)) (the (bm_third_field between))
                    RNone (Some (sm_name msg)) (sm_verbose msg))
             (\<lambda>c. Inr (Some c))
         else Inr None)
      else Inl ValueError)"


text \<open>
  A Python set holds no two equal members. \<open>py_distinct\<close> says so of the list that models
  it, and \<open>set_arg_ok\<close> of a constructor argument that is a set.
\<close>

fun py_distinct :: "pyval list \<Rightarrow> bool" where
  "py_distinct [] = True"
| "py_distinct (x # xs) = (\<not> list_ex (py_eq x) xs \<and> py_distinct xs)"

fun set_arg_ok :: "refarg \<Rightarrow> bool" where
  "set_arg_ok (RSet xs) = py_distinct xs"
| "set_arg_ok r = True"

text \<open>
  A message keeps an operand when the operand is \<^verbatim>\<open>None\<close>, which leaves the field unset,
  or the field holds the very value it was given. A \<^verbatim>\<open>ListValue\<close> keeps every member
  that is not an integer (\<open>ListValue_keeps\<close>). \<open>operands_kept\<close> says that the message of a
  constraint keeps its operands and, for a set relation, that the reference set is not
  empty.
\<close>

definition kept :: "(pyval \<Rightarrow> error + pyval) \<Rightarrow> pyval \<Rightarrow> bool" where
  "kept field v = (v = PNone \<or> field v = Inr v)"

fun ListValue_keeps :: "pyval \<Rightarrow> bool" where
  "ListValue_keeps (PInt i) = False"
| "ListValue_keeps (PObj n) = False"
| "ListValue_keeps v = True"

definition operands_kept :: "pylib \<Rightarrow> SummaryConstraint \<Rightarrow> bool" where
  "operands_kept L c =
     (if is_set_op (sc_op c) then
        (case sc_reference_set c of
           None \<Rightarrow> False
         | Some r \<Rightarrow> r \<noteq> [] \<and> ListValue_extend L [] r = Inr r)
      else kept (field_value L) (sc_value c) \<and> kept (field_value L) (sc_upper_value c)
         \<and> kept (field_string L) (sc_second_field c)
         \<and> kept (field_string L) (sc_third_field c))"

section \<open>A library instance for the examples\<close>

text \<open>
  The examples below evaluate the definitions with this instance of the libraries: every
  pattern compiles and matches the strings it is a prefix of, a string renders as itself,
  a sketch takes strings and numbers, the difference of two sketches is counted exactly,
  an integer converts to the float of the same value, a field for a literal operand holds
  a number as a double and refuses anything else, and a field for a field name holds a
  string and refuses anything else.
\<close>

definition exact_lib :: pylib where
  "exact_lib =
     \<lparr>re_compiles = (\<lambda>p. True),
      re_match = (\<lambda>p s. take (length p) s = p),
      py_str = (\<lambda>v. case v of PStr s \<Rightarrow> s | _ \<Rightarrow> ''#''),
      py_str_set = (\<lambda>xs. ''{'' @ concat (map (\<lambda>v. case v of PStr s \<Rightarrow> s | _ \<Rightarrow> ''#'') xs) @ ''}''),
      theta_accepts = (\<lambda>v. is_str v \<or> is_int_or_float v),
      a_not_b = (\<lambda>a b. case a of Theta xs \<Rightarrow>
                   (case b of Theta ys \<Rightarrow>
                      of_nat (length (filter (\<lambda>x. \<not> list_ex (py_eq x) ys) xs)))),
      to_double = (\<lambda>i. Inr (Fin (of_int i))),
      field_value = (\<lambda>v. case num_of v of None \<Rightarrow> Inl TypeError | Some f \<Rightarrow> Inr (PFloat f)),
      field_string = (\<lambda>v. if is_str v then Inr v else Inl TypeError)\<rparr>"

section \<open>Properties of the collections\<close>

text \<open>
  C8. Indexing a \<^verbatim>\<open>ValueConstraints\<close> or a \<^verbatim>\<open>SummaryConstraints\<close> collection never returns
  a stored constraint: for every collection, holding constraints or not, and every name,
  \<^verbatim>\<open>collection[name]\<close> raises \<^verbatim>\<open>AttributeError\<close>, because the lookup reads the attribute
  \<^verbatim>\<open>contraints\<close>, which no instance has.
\<close>

theorem getitem_raises_AttributeError:
  "ValueConstraints_getitem vcs name = Inl AttributeError
   \<and> SummaryConstraints_getitem scs name' = Inl AttributeError"
  by (simp add: ValueConstraints_getitem_def SummaryConstraints_getitem_def
      ValueConstraints_getattr_def SummaryConstraints_getattr_def ebind_def)

text \<open>
  C2, as the code has it. \<^verbatim>\<open>merge\<close> of two collections does not reject a name that only
  one of them holds: it returns \<^verbatim>\<open>self\<close> as it is when \<^verbatim>\<open>other\<close> is absent or holds no
  constraint, whatever \<^verbatim>\<open>self\<close> holds, and it returns exactly the constraints of
  \<^verbatim>\<open>other\<close> when \<^verbatim>\<open>self\<close> holds none.
\<close>

theorem merge_keeps_unmatched_names:
  "ValueConstraints_merge vself None = Inr vself
   \<and> ValueConstraints_merge vself (Some \<lparr>vcs_constraints = []\<rparr>) = Inr vself
   \<and> ValueConstraints_merge \<lparr>vcs_constraints = []\<rparr> (Some vother) = Inr vother
   \<and> SummaryConstraints_merge sself None = Inr sself
   \<and> SummaryConstraints_merge sself (Some \<lparr>scs_constraints = []\<rparr>) = Inr sself
   \<and> SummaryConstraints_merge \<lparr>scs_constraints = []\<rparr> (Some sother) = Inr sother"
  by (simp add: ValueConstraints_merge_def SummaryConstraints_merge_def ebind_def)

text \<open>
  The claim as stated fails: a collection holding the constraint \<^verbatim>\<open>a\<close> merges with an
  empty collection, whose names differ from its own, and the merge returns the first
  collection instead of raising.
\<close>

theorem merge_differing_names_counterexample:
  "map fst (vcs_constraints \<lparr>vcs_constraints = [(''a'',
        \<lparr>vc_name = Some ''a'', vc_verbose = False, vc_op = GT, vc_total = 0, vc_failures = 0,
         vc_value = Some (PInt 0), vc_regex_pattern = None, vc_func = (GT, Literal (PInt 0))\<rparr>)]\<rparr>)
     \<noteq> map fst (vcs_constraints \<lparr>vcs_constraints = []\<rparr>)
   \<and> ValueConstraints_merge
       \<lparr>vcs_constraints = [(''a'',
         \<lparr>vc_name = Some ''a'', vc_verbose = False, vc_op = GT, vc_total = 0, vc_failures = 0,
          vc_value = Some (PInt 0), vc_regex_pattern = None, vc_func = (GT, Literal (PInt 0))\<rparr>)]\<rparr>
       (Some \<lparr>vcs_constraints = []\<rparr>)
     = Inr \<lparr>vcs_constraints = [(''a'',
         \<lparr>vc_name = Some ''a'', vc_verbose = False, vc_op = GT, vc_total = 0, vc_failures = 0,
          vc_value = Some (PInt 0), vc_regex_pattern = None, vc_func = (GT, Literal (PInt 0))\<rparr>)]\<rparr>"
  by (simp add: ValueConstraints_merge_def)

text \<open>
  When both collections hold constraints, the loop unpacks the first key of \<^verbatim>\<open>self\<close> as
  if it were a pair: the merge raises \<^verbatim>\<open>ValueError\<close>, or \<^verbatim>\<open>AttributeError\<close> for a name of
  two characters, whether or not the names agree.
\<close>

lemma unpack_key_error: "unpack_key k = Inl e \<Longrightarrow> e = ValueError"
  by (induction k rule: unpack_key.induct) auto

lemma merge_loop_raises:
  "keys \<noteq> [] \<Longrightarrow> merge_loop keys other merged = Inl ValueError
     \<or> merge_loop keys other merged = Inl AttributeError"
  by (cases keys) (auto simp: ebind_def str_merge_def split: sum.splits dest: unpack_key_error)

lemma ValueConstraints_merge_raises:
  "vcs_constraints vself \<noteq> [] \<Longrightarrow> vcs_constraints vother \<noteq> [] \<Longrightarrow>
   ValueConstraints_merge vself (Some vother) = Inl ValueError
   \<or> ValueConstraints_merge vself (Some vother) = Inl AttributeError"
  using merge_loop_raises [of "map fst (vcs_constraints vself)" "vcs_constraints vother"
      "vcs_constraints vother"]
  by (auto simp: ValueConstraints_merge_def ebind_def)

lemma SummaryConstraints_merge_raises:
  "scs_constraints sself \<noteq> [] \<Longrightarrow> scs_constraints sother \<noteq> [] \<Longrightarrow>
   SummaryConstraints_merge sself (Some sother) = Inl ValueError
   \<or> SummaryConstraints_merge sself (Some sother) = Inl AttributeError"
  using merge_loop_raises [of "map fst (scs_constraints sself)" "scs_constraints sother"
      "scs_constraints sother"]
  by (auto simp: SummaryConstraints_merge_def ebind_def)

section \<open>Properties of update\<close>

text \<open>
  C4. One call of \<^verbatim>\<open>update\<close> on a \<^verbatim>\<open>ValueConstraint\<close> or a \<^verbatim>\<open>SummaryConstraint\<close> raises
  \<^verbatim>\<open>total\<close> by exactly one and never lowers \<^verbatim>\<open>failures\<close>. This holds for every instance
  and every input, also when the call ends in an exception, hence for every input that
  \<^verbatim>\<open>update\<close> accepts.
\<close>

theorem update_total_and_failures:
  "vc_total (fst (ValueConstraint_update L vc v)) = vc_total vc + 1
   \<and> vc_failures vc \<le> vc_failures (fst (ValueConstraint_update L vc v))
   \<and> sc_total (fst (SummaryConstraint_update L sc d)) = sc_total sc + 1
   \<and> sc_failures sc \<le> sc_failures (fst (SummaryConstraint_update L sc d))"
  by (simp add: ValueConstraint_update_def SummaryConstraint_update_def Let_def
      split: sum.splits)

text \<open>
  C10. A call of \<^verbatim>\<open>update\<close> changes the counters \<^verbatim>\<open>total\<close> and \<^verbatim>\<open>failures\<close> only: putting
  the two counters back gives the instance as it was before the call, with its operator,
  name, literal value or pattern, operand fields, reference set, derived sets and
  sketches, and bound function.
\<close>

theorem update_changes_counters_only:
  "fst (ValueConstraint_update L vc v)
       \<lparr>vc_total := vc_total vc, vc_failures := vc_failures vc\<rparr> = vc
   \<and> fst (SummaryConstraint_update L sc d)
       \<lparr>sc_total := sc_total sc, sc_failures := sc_failures sc\<rparr> = sc"
  by (simp add: ValueConstraint_update_def SummaryConstraint_update_def Let_def
      split: sum.splits)

text \<open>
  C5. A \<^verbatim>\<open>MATCH\<close> or \<^verbatim>\<open>NOMATCH\<close> constraint counts every input that is not a string as a
  failure, but the call can raise: \<^verbatim>\<open>ValueConstraint(Op.MATCH, value=0, verbose=True)\<close>
  is constructed, and its \<^verbatim>\<open>update(5)\<close> raises \<^verbatim>\<open>AttributeError\<close> while it renders
  \<^verbatim>\<open>self.name\<close> for the log record, after both counters were raised.
\<close>

theorem update_raises_while_logging:
  "(case ValueConstraint_init exact_lib MATCH (PInt 0) None None True of
      Inl e \<Rightarrow> None
    | Inr c \<Rightarrow> Some (snd (ValueConstraint_update exact_lib c (PInt 5))))
   = Some (Some AttributeError)"
  by (simp add: ValueConstraint_init_def in_value_funcs_def
      ValueConstraint_update_def ValueConstraint_name_def logged_def)

text \<open>
  Whatever the call ends in, the input is counted; and the call returns whenever the
  constraint is not verbose or its name can be rendered, which is so for every constraint
  built from a pattern.
\<close>

lemma non_string_counts_as_failure:
  assumes "vc_op c \<in> {MATCH, NOMATCH}" and "\<not> is_str v"
  shows "fst (ValueConstraint_update L c v)
           = c\<lparr>vc_total := vc_total c + 1, vc_failures := vc_failures c + 1\<rparr>"
    and "\<not> vc_verbose c \<or> ValueConstraint_name L c \<noteq> Inl AttributeError
           \<Longrightarrow> snd (ValueConstraint_update L c v) = None"
proof -
  show "fst (ValueConstraint_update L c v)
          = c\<lparr>vc_total := vc_total c + 1, vc_failures := vc_failures c + 1\<rparr>"
    using assms by (simp add: ValueConstraint_update_def Let_def)
  assume "\<not> vc_verbose c \<or> ValueConstraint_name L c \<noteq> Inl AttributeError"
  then show "snd (ValueConstraint_update L c v) = None"
    using assms
    by (auto simp: ValueConstraint_update_def Let_def ValueConstraint_name_def logged_def
        split: sum.splits option.splits if_splits)
qed

lemma pattern_constraint_name:
  "ValueConstraint_init L op PNone (Some p) name verbose = Inr c
   \<Longrightarrow> \<exists>n. ValueConstraint_name L c = Inr n"
  by (auto simp: ValueConstraint_init_def ValueConstraint_name_def split: if_splits option.splits)

section \<open>Sets, names and the shapes the constructors accept\<close>

text \<open>Equality of values is symmetric; what \<open>py_set\<close> builds has no two equal members.\<close>

lemma is_str_not_Real: "is_str v \<Longrightarrow> \<not> is_Real v"
  by (cases v) auto

lemma f_eq_sym: "f_eq x y = f_eq y x"
  by (cases x; cases y) auto

lemma py_eq_sym: "py_eq a b = py_eq b a"
  by (auto simp: f_eq_sym split: option.splits)

lemma py_distinct_snoc:
  "py_distinct (xs @ [x]) = (py_distinct xs \<and> \<not> list_ex (\<lambda>y. py_eq y x) xs)"
  by (induction xs) (auto simp: list_ex_iff py_eq_sym simp del: py_eq.simps)

lemma py_distinct_py_set_add: "py_distinct xs \<Longrightarrow> py_distinct (py_set_add xs x)"
  by (simp add: py_set_add_def py_distinct_snoc del: py_eq.simps)

lemma py_distinct_foldl: "py_distinct acc \<Longrightarrow> py_distinct (foldl py_set_add acc xs)"
  by (induction xs arbitrary: acc) (simp_all add: py_distinct_py_set_add)

lemma py_distinct_py_set: "py_distinct (py_set xs)"
  by (simp add: py_set_def py_distinct_foldl)

lemma as_reference_set_distinct:
  "set_arg_ok r \<Longrightarrow> as_reference_set r = Inr xs \<Longrightarrow> py_distinct xs"
  by (induction r rule: as_reference_set.induct) (auto simp: py_distinct_py_set)

text \<open>The set of a list that has no two equal members is that list, and is not empty
  unless the list is.\<close>

lemma foldl_py_set_add_distinct:
  "py_distinct (acc @ xs) \<Longrightarrow> foldl py_set_add acc xs = acc @ xs"
proof (induction xs arbitrary: acc)
  case Nil
  then show ?case by simp
next
  case (Cons x xs)
  have "py_distinct ((acc @ [x]) @ xs)" using Cons.prems by simp
  moreover have "py_distinct (acc @ [x])"
    using Cons.prems by (induction acc) (auto simp: list_ex_iff simp del: py_eq.simps)
  then have "py_set_add acc x = acc @ [x]"
    by (simp add: py_set_add_def py_distinct_snoc del: py_eq.simps)
  ultimately show ?case using Cons.IH [of "acc @ [x]"] by simp
qed

lemma py_set_distinct: "py_distinct xs \<Longrightarrow> py_set xs = xs"
  using foldl_py_set_add_distinct [of "[]" xs] by (simp add: py_set_def)

lemma foldl_py_set_add_length: "length acc \<le> length (foldl py_set_add acc xs)"
proof (induction xs arbitrary: acc)
  case Nil
  then show ?case by simp
next
  case (Cons x xs)
  have "length acc \<le> length (py_set_add acc x)" by (simp add: py_set_add_def)
  also have "\<dots> \<le> length (foldl py_set_add (py_set_add acc x) xs)" by (rule Cons.IH)
  finally show ?case by simp
qed

lemma py_set_nonempty: "xs \<noteq> [] \<Longrightarrow> py_set xs \<noteq> []"
proof (cases xs)
  case Nil
  then show "xs \<noteq> [] \<Longrightarrow> ?thesis" by simp
next
  case (Cons x rest)
  have "length (py_set_add [] x) \<le> length (foldl py_set_add (py_set_add [] x) rest)"
    by (rule foldl_py_set_add_length)
  then show ?thesis using Cons by (auto simp: py_set_def py_set_add_def)
qed

lemma as_reference_set_nonempty:
  "ref_truthy r \<Longrightarrow> \<forall>ys. r \<noteq> RIter ys \<Longrightarrow> as_reference_set r = Inr xs \<Longrightarrow> xs \<noteq> []"
  by (induction r rule: as_reference_set.induct) (auto simp: py_set_nonempty)

text \<open>The loop, from any state of its two accumulators that the remaining items are new to.\<close>

lemma string_and_numbers_loop_sets:
  "py_distinct items \<Longrightarrow>
   \<forall>x \<in> set items. \<forall>y \<in> set string_set \<union> set numbers_set. \<not> py_eq y x \<Longrightarrow>
   set (fst (string_and_numbers_loop items (string_set, numbers_set)))
     = set string_set \<union> {x \<in> set items. is_str x}
   \<and> set (snd (string_and_numbers_loop items (string_set, numbers_set)))
     = set numbers_set \<union> {x \<in> set items. is_Real x \<and> \<not> is_bool x}"
proof (induction items arbitrary: string_set numbers_set)
  case Nil
  then show ?case by simp
next
  case (Cons item rest)
  have fresh: "\<not> list_ex (\<lambda>y. py_eq y item) string_set" "\<not> list_ex (\<lambda>y. py_eq y item) numbers_set"
    using Cons.prems(2) by (auto simp: list_ex_iff simp del: py_eq.simps)
  have rest: "py_distinct rest" and item: "\<forall>x \<in> set rest. \<not> py_eq item x"
    using Cons.prems(1) by (auto simp: list_ex_iff simp del: py_eq.simps)
  have old: "\<forall>x \<in> set rest. \<forall>y \<in> set string_set \<union> set numbers_set. \<not> py_eq y x"
    using Cons.prems(2) by (auto simp del: py_eq.simps)
  show ?case
  proof (cases "is_str item")
    case True
    have "\<forall>x \<in> set rest. \<forall>y \<in> set (string_set @ [item]) \<union> set numbers_set. \<not> py_eq y x"
      using old item by (auto simp del: py_eq.simps)
    from Cons.IH [OF rest this] True fresh is_str_not_Real [OF True] show ?thesis
      by (auto simp: py_set_add_def simp del: py_eq.simps)
  next
    case False
    show ?thesis
    proof (cases "is_Real item \<and> \<not> is_bool item")
      case True
      have "\<forall>x \<in> set rest. \<forall>y \<in> set string_set \<union> set (numbers_set @ [item]). \<not> py_eq y x"
        using old item by (auto simp del: py_eq.simps)
      from Cons.IH [OF rest this] True False fresh show ?thesis
        by (auto simp: py_set_add_def simp del: py_eq.simps)
    next
      case nonum: False
      from Cons.IH [OF rest old] nonum False show ?thesis
        by (auto simp del: py_eq.simps)
    qed
  qed
qed

lemma get_string_and_numbers_sets_partition:
  "py_distinct reference_set \<Longrightarrow>
   set (fst (get_string_and_numbers_sets reference_set)) = {x \<in> set reference_set. is_str x}
   \<and> set (snd (get_string_and_numbers_sets reference_set))
       = {x \<in> set reference_set. is_Real x \<and> \<not> is_bool x}"
  using string_and_numbers_loop_sets [of reference_set "[]" "[]"]
  by (simp add: get_string_and_numbers_sets_def)

lemma init_set_op_fields:
  assumes "SummaryConstraint_init L first_field op value upper_value second_field third_field
             reference_set name verbose = Inr c"
    and "is_set_op op"
  shows "\<exists>r. as_reference_set reference_set = Inr r \<and> sc_reference_set c = Some r
           \<and> sc_ref_string_set c = Some (fst (get_string_and_numbers_sets r))
           \<and> sc_ref_numbers_set c = Some (snd (get_string_and_numbers_sets r))"
  using assms
  by (auto simp: SummaryConstraint_init_def ebind_def Let_def
      split: if_splits sum.splits prod.splits)

text \<open>
  The five ways in which \<^verbatim>\<open>SummaryConstraint.__init__\<close> returns, with the instance each
  one leaves, and the one way in which \<^verbatim>\<open>ValueConstraint.__init__\<close> returns for a literal.
\<close>

lemma SummaryConstraint_init_cases:
  assumes "SummaryConstraint_init L first_field op value upper_value second_field third_field
             reference_set name verbose = Inr c"
  obtains
    (set_relation) r rt st nt where
      "is_set_op op" "\<not> truthy value" "\<not> truthy upper_value" "\<not> truthy second_field"
      "\<not> truthy third_field" "ref_truthy reference_set" "as_reference_set reference_set = Inr r"
      "create_theta_sketch L r None = Inr rt"
      "create_theta_sketch L r (Some (fst (get_string_and_numbers_sets r))) = Inr st"
      "create_theta_sketch L r (Some (snd (get_string_and_numbers_sets r))) = Inr nt"
      "c = (sc_fresh first_field op value upper_value second_field third_field name verbose)
             \<lparr>sc_reference_set := Some r,
              sc_ref_string_set := Some (fst (get_string_and_numbers_sets r)),
              sc_ref_numbers_set := Some (snd (get_string_and_numbers_sets r)),
              sc_reference_theta_sketch := Some rt,
              sc_string_theta_sketch := Some st,
              sc_numbers_theta_sketch := Some nt\<rparr>"
  | (between_values)
      "op = BTWN" "value \<noteq> PNone" "upper_value \<noteq> PNone" "second_field = PNone"
      "third_field = PNone" "is_int_or_float value" "is_int_or_float upper_value"
      "py_ge value upper_value = Inr False"
      "c = (sc_fresh first_field op value upper_value second_field third_field name verbose)
             \<lparr>sc_func := Some (Funcs1_BTWN first_field value upper_value)\<rparr>"
  | (between_fields)
      "op = BTWN" "value = PNone" "upper_value = PNone" "second_field \<noteq> PNone"
      "third_field \<noteq> PNone" "is_str second_field" "is_str third_field"
      "c = (sc_fresh first_field op value upper_value second_field third_field name verbose)
             \<lparr>sc_func := Some (Funcs2_BTWN first_field second_field third_field)\<rparr>"
  | (literal)
      "in_summary_funcs op" "value \<noteq> PNone" "upper_value = PNone" "second_field = PNone"
      "third_field = PNone"
      "c = (sc_fresh first_field op value upper_value second_field third_field name verbose)
             \<lparr>sc_func := Some (Funcs1 op first_field value)\<rparr>"
  | (field)
      "in_summary_funcs op" "value = PNone" "upper_value = PNone" "second_field \<noteq> PNone"
      "third_field = PNone"
      "c = (sc_fresh first_field op value upper_value second_field third_field name verbose)
             \<lparr>sc_func := Some (Funcs2 op first_field second_field)\<rparr>"
proof (cases "is_set_op op")
  case True
  with assms have
    "\<not> truthy value \<and> \<not> truthy upper_value \<and> \<not> truthy second_field \<and> \<not> truthy third_field
     \<and> ref_truthy reference_set
     \<and> (\<exists>r rt st nt. as_reference_set reference_set = Inr r
          \<and> create_theta_sketch L r None = Inr rt
          \<and> create_theta_sketch L r (Some (fst (get_string_and_numbers_sets r))) = Inr st
          \<and> create_theta_sketch L r (Some (snd (get_string_and_numbers_sets r))) = Inr nt
          \<and> c = (sc_fresh first_field op value upper_value second_field third_field name verbose)
             \<lparr>sc_reference_set := Some r,
              sc_ref_string_set := Some (fst (get_string_and_numbers_sets r)),
              sc_ref_numbers_set := Some (snd (get_string_and_numbers_sets r)),
              sc_reference_theta_sketch := Some rt,
              sc_string_theta_sketch := Some st,
              sc_numbers_theta_sketch := Some nt\<rparr>)"
    by (auto simp: SummaryConstraint_init_def ebind_def Let_def
        split: if_splits sum.splits prod.splits)
  with True show ?thesis using set_relation by blast
next
  case noset: False
  show ?thesis
  proof (cases "op = BTWN")
    case True
    with assms noset have
      "(value \<noteq> PNone \<and> upper_value \<noteq> PNone \<and> second_field = PNone \<and> third_field = PNone
        \<and> is_int_or_float value \<and> is_int_or_float upper_value
        \<and> py_ge value upper_value = Inr False
        \<and> c = (sc_fresh first_field op value upper_value second_field third_field name verbose)
             \<lparr>sc_func := Some (Funcs1_BTWN first_field value upper_value)\<rparr>)
       \<or> (value = PNone \<and> upper_value = PNone \<and> second_field \<noteq> PNone \<and> third_field \<noteq> PNone
        \<and> is_str second_field \<and> is_str third_field
        \<and> c = (sc_fresh first_field op value upper_value second_field third_field name verbose)
             \<lparr>sc_func := Some (Funcs2_BTWN first_field second_field third_field)\<rparr>)"
      by (auto simp: SummaryConstraint_init_def ebind_def Let_def split: if_splits sum.splits)
    with True show ?thesis using between_values between_fields by blast
  next
    case False
    with assms noset have
      "in_summary_funcs op \<and> upper_value = PNone \<and> third_field = PNone
       \<and> ((value \<noteq> PNone \<and> second_field = PNone
            \<and> c = (sc_fresh first_field op value upper_value second_field third_field name verbose)
                 \<lparr>sc_func := Some (Funcs1 op first_field value)\<rparr>)
          \<or> (value = PNone \<and> second_field \<noteq> PNone
            \<and> c = (sc_fresh first_field op value upper_value second_field third_field name verbose)
                 \<lparr>sc_func := Some (Funcs2 op first_field second_field)\<rparr>))"
      by (auto simp: SummaryConstraint_init_def ebind_def Let_def split: if_splits sum.splits)
    then show ?thesis using literal field by blast
  qed
qed

lemma ValueConstraint_init_literal:
  assumes "ValueConstraint_init L op value None name verbose = Inr c"
  shows "value \<noteq> PNone \<and> in_value_funcs op
         \<and> c = \<lparr>vc_name = name, vc_verbose = verbose, vc_op = op, vc_total = 0,
                 vc_failures = 0, vc_value = Some value, vc_regex_pattern = None,
                 vc_func = (op, Literal value)\<rparr>"
  using assms by (auto simp: ValueConstraint_init_def split: if_splits)

text \<open>The counters play no part in a name, and the name of a \<^verbatim>\<open>SummaryConstraint\<close> as
  constructed can always be rendered.\<close>

lemma SummaryConstraint_name_counters [simp]:
  "SummaryConstraint_name L (c\<lparr>sc_total := t, sc_failures := f\<rparr>) = SummaryConstraint_name L c"
  by (simp add: SummaryConstraint_name_def Let_def cong: option.case_cong if_cong)

lemma SummaryConstraint_name_returns:
  assumes "SummaryConstraint_init L first_field op value upper_value second_field third_field
             reference_set name verbose = Inr c"
  shows "\<exists>n. SummaryConstraint_name L c = Inr n"
  using assms
  by (cases rule: SummaryConstraint_init_cases)
     (auto simp: SummaryConstraint_name_def sc_fresh_def attr_def ebind_def Let_def
        is_set_op_def in_summary_funcs_def)

lemma ValueConstraint_name_counters [simp]:
  "ValueConstraint_name L (c\<lparr>vc_total := t, vc_failures := f\<rparr>) = ValueConstraint_name L c"
  by (simp add: ValueConstraint_name_def cong: option.case_cong if_cong)

section \<open>Properties of the SummaryConstraint constructor\<close>

text \<open>
  C9. Constructing a \<^verbatim>\<open>SummaryConstraint\<close> with a set relation (\<^verbatim>\<open>IN_SET\<close>,
  \<^verbatim>\<open>CONTAIN_SET\<close>, \<^verbatim>\<open>EQ_SET\<close>) and an empty reference set, or any other falsy argument in
  its place, raises \<^verbatim>\<open>ValueError\<close>, as the same call with no reference set does.
\<close>

theorem falsy_reference_set_rejected:
  assumes "is_set_op op" and "\<not> ref_truthy reference_set"
  shows "SummaryConstraint_init L first_field op value upper_value second_field third_field
           reference_set name verbose = Inl ValueError
         \<and> SummaryConstraint_init L first_field op value upper_value second_field third_field
             RNone name verbose = Inl ValueError"
  using assms by (simp add: SummaryConstraint_init_def)

theorem falsy_reference_set_rejected_witness:
  "is_set_op IN_SET \<and> \<not> ref_truthy (RSet [])
   \<and> SummaryConstraint_init exact_lib ''distinct_column_values'' IN_SET PNone PNone PNone PNone
       (RSet []) None False = Inl ValueError"
  using falsy_reference_set_rejected [of IN_SET "RSet []" exact_lib
      "''distinct_column_values''" PNone PNone PNone PNone None False]
  by (simp add: is_set_op_def)

text \<open>
  C6. \<^verbatim>\<open>BTWN\<close> with two literal bounds: the constructor tests \<^verbatim>\<open>value >= upper_value\<close>,
  which is false for a NaN bound, so
  \<^verbatim>\<open>SummaryConstraint("min", Op.BTWN, value=float("nan"), upper_value=1.0)\<close> is constructed
  although its lower bound is not less than its upper bound.
\<close>

theorem between_accepts_nan_bound:
  "SummaryConstraint_init exact_lib ''min'' BTWN (PFloat NaN) (PFloat (Fin 1)) PNone PNone RNone
     None False
   = Inr ((sc_fresh ''min'' BTWN (PFloat NaN) (PFloat (Fin 1)) PNone PNone None False)
           \<lparr>sc_func := Some (Funcs1_BTWN ''min'' (PFloat NaN) (PFloat (Fin 1)))\<rparr>)
   \<and> py_lt (PFloat NaN) (PFloat (Fin 1)) = Inr False"
  by (simp add: SummaryConstraint_init_def is_set_op_def py_ge_def py_lt_def py_cmp_def
      f_le_def ebind_def)

theorem between_accepts_nan_bound_witness:
  "\<exists>c. SummaryConstraint_init exact_lib ''min'' BTWN (PFloat NaN) (PFloat (Fin 1)) PNone PNone
         RNone None False = Inr c
       \<and> sc_value c = PFloat NaN \<and> sc_upper_value c = PFloat (Fin 1)"
  using between_accepts_nan_bound by (simp add: sc_fresh_def)

text \<open>
  With bounds that are not NaN the constructor does what the claim says: it returns only
  if both bounds are integers or floats and the lower one is less than the upper one, and
  what it raises otherwise is \<^verbatim>\<open>TypeError\<close> or \<^verbatim>\<open>ValueError\<close>.
\<close>

lemma between_literals_need_lower_less:
  assumes "SummaryConstraint_init L first_field BTWN value upper_value second_field third_field
             reference_set name verbose = Inr c"
    and "value \<noteq> PNone" and "upper_value \<noteq> PNone"
    and "value \<noteq> PFloat NaN" and "upper_value \<noteq> PFloat NaN"
  shows "is_int_or_float value \<and> is_int_or_float upper_value
         \<and> py_lt value upper_value = Inr True"
proof -
  have lt: "\<not> f_le y x \<Longrightarrow> x \<noteq> NaN \<Longrightarrow> y \<noteq> NaN \<Longrightarrow> f_lt x y" for x y
    by (cases x; cases y) (auto simp: f_le_def)
  from assms show ?thesis
    by (cases "value"; cases upper_value)
       (auto simp: SummaryConstraint_init_def is_set_op_def ebind_def py_ge_def py_lt_def
          py_cmp_def Let_def dest: lt split: if_splits)
qed

lemma between_literals_error_kind:
  assumes "SummaryConstraint_init L first_field BTWN value upper_value second_field third_field
             reference_set name verbose = Inl e"
  shows "e = TypeError \<or> e = ValueError"
  using assms
  by (cases "value"; cases upper_value)
     (auto simp: SummaryConstraint_init_def is_set_op_def ebind_def py_ge_def
          py_cmp_def Let_def split: if_splits)

text \<open>
  C7. A \<^verbatim>\<open>SummaryConstraint\<close> built with a set relation (\<^verbatim>\<open>IN_SET\<close>, \<^verbatim>\<open>CONTAIN_SET\<close>,
  \<^verbatim>\<open>EQ_SET\<close>) keeps, as its string subset, exactly the strings of its reference set and,
  as its numeric subset, exactly the members that are real numbers and not booleans. A
  boolean is a real number for \<^verbatim>\<open>isinstance\<close> (\<open>is_Real (PBool b)\<close> holds); the second
  test of the loop leaves it out, so no boolean is in the numeric subset. The reference
  set is any argument the constructor accepts; \<open>set_arg_ok\<close> only says that an argument
  which is a set has no two equal members, as every Python set does.
\<close>

theorem reference_set_partition:
  assumes "SummaryConstraint_init L first_field op value upper_value second_field third_field
             reference_set name verbose = Inr c"
    and "is_set_op op"
    and "set_arg_ok reference_set"
  shows "\<exists>r ss ns. sc_reference_set c = Some r \<and> sc_ref_string_set c = Some ss
           \<and> sc_ref_numbers_set c = Some ns
           \<and> set ss = {x \<in> set r. is_str x}
           \<and> set ns = {x \<in> set r. is_Real x \<and> \<not> is_bool x}
           \<and> (\<forall>b. PBool b \<notin> set ns)"
proof -
  from init_set_op_fields [OF assms(1,2)] obtain r where
    r: "as_reference_set reference_set = Inr r" "sc_reference_set c = Some r"
       "sc_ref_string_set c = Some (fst (get_string_and_numbers_sets r))"
       "sc_ref_numbers_set c = Some (snd (get_string_and_numbers_sets r))"
    by blast
  have "py_distinct r" using as_reference_set_distinct [OF assms(3) r(1)] .
  from get_string_and_numbers_sets_partition [OF this]
  have sets: "set (fst (get_string_and_numbers_sets r)) = {x \<in> set r. is_str x}"
    "set (snd (get_string_and_numbers_sets r)) = {x \<in> set r. is_Real x \<and> \<not> is_bool x}"
    by simp_all
  have "\<forall>b. PBool b \<notin> set (snd (get_string_and_numbers_sets r))"
    unfolding sets by simp
  with sets r show ?thesis by blast
qed

theorem reference_set_partition_witness:
  "is_set_op IN_SET
   \<and> set_arg_ok (RSet [PStr ''a'', PInt 2, PBool True, PFloat (Fin (1/2))])
   \<and> (\<exists>c r ss ns.
        SummaryConstraint_init exact_lib ''distinct_column_values'' IN_SET PNone PNone PNone PNone
          (RSet [PStr ''a'', PInt 2, PBool True, PFloat (Fin (1/2))]) None False = Inr c
        \<and> sc_reference_set c = Some r \<and> sc_ref_string_set c = Some ss
        \<and> sc_ref_numbers_set c = Some ns
        \<and> set ss = {x \<in> set r. is_str x}
        \<and> set ns = {x \<in> set r. is_Real x \<and> \<not> is_bool x}
        \<and> PBool True \<in> set r \<and> PBool True \<notin> set ns)"
proof -
  have op: "is_set_op IN_SET" by (simp add: is_set_op_def)
  have ok: "set_arg_ok (RSet [PStr ''a'', PInt 2, PBool True, PFloat (Fin (1/2))])"
    by simp
  have "\<exists>c. SummaryConstraint_init exact_lib ''distinct_column_values'' IN_SET PNone PNone PNone
          PNone (RSet [PStr ''a'', PInt 2, PBool True, PFloat (Fin (1/2))]) None False
        = Inr c"
    by (simp add: SummaryConstraint_init_def is_set_op_def ebind_def exact_lib_def
        get_string_and_numbers_sets_def py_set_add_def create_theta_sketch_def sc_fresh_def)
  then obtain c where c: "SummaryConstraint_init exact_lib ''distinct_column_values'' IN_SET
      PNone PNone PNone PNone (RSet [PStr ''a'', PInt 2, PBool True, PFloat (Fin (1/2))])
      None False = Inr c" ..
  from reference_set_partition [OF c op ok] obtain r ss ns where
    res: "sc_reference_set c = Some r" "sc_ref_string_set c = Some ss"
      "sc_ref_numbers_set c = Some ns" "set ss = {x \<in> set r. is_str x}"
      "set ns = {x \<in> set r. is_Real x \<and> \<not> is_bool x}" "\<forall>b. PBool b \<notin> set ns"
    by blast
  have "r = [PStr ''a'', PInt 2, PBool True, PFloat (Fin (1/2))]"
    using init_set_op_fields [OF c op] res(1) by auto
  then have "PBool True \<in> set r" by simp
  with res c op ok show ?thesis by blast
qed

section \<open>Properties of merge\<close>

text \<open>
  C1. Two equal constraints built from a pattern cannot be merged:
  \<^verbatim>\<open>ValueConstraint(Op.MATCH, regex_pattern="a")\<close> is constructed, and its \<^verbatim>\<open>merge\<close> with
  itself raises \<^verbatim>\<open>AttributeError\<close>, because \<^verbatim>\<open>merge\<close> reads the attribute \<^verbatim>\<open>value\<close>, which
  an instance built from a pattern does not have.
\<close>

theorem merge_of_pattern_constraints_raises:
  "(case ValueConstraint_init exact_lib MATCH PNone (Some ''a'') None False of
      Inl e \<Rightarrow> None
    | Inr c \<Rightarrow> Some (ValueConstraint_merge exact_lib c (Some c)))
   = Some (Inl AttributeError)"
  by (simp add: ValueConstraint_init_def in_value_funcs_def exact_lib_def
      ValueConstraint_merge_def ValueConstraint_name_def ebind_def vc_get_value_def)

text \<open>
  Constraints that hold a literal other than NaN and whose name can be rendered do merge:
  the result is the constraint as constructed, under the rendered name, with the sums of
  the counters. The merge is commutative and associative on them.
\<close>

lemma ValueConstraint_merge_literal:
  assumes init: "ValueConstraint_init L op value None name verbose = Inr c0"
    and na: "ValueConstraint_name L (c0\<lparr>vc_name := a\<rparr>) = Inr n"
    and nb: "ValueConstraint_name L (c0\<lparr>vc_name := b\<rparr>) = Inr n"
    and eq: "py_eq value value"
  shows "ValueConstraint_merge L (c0\<lparr>vc_name := a, vc_total := ta, vc_failures := fa\<rparr>)
           (Some (c0\<lparr>vc_name := b, vc_total := tb, vc_failures := fb\<rparr>))
         = Inr (c0\<lparr>vc_name := Some n, vc_total := ta + tb, vc_failures := fa + fb\<rparr>)"
proof -
  from ValueConstraint_init_literal [OF init] have
    v: "value \<noteq> PNone" and op: "in_value_funcs op"
    and c0: "c0 = \<lparr>vc_name = name, vc_verbose = verbose, vc_op = op, vc_total = 0,
                 vc_failures = 0, vc_value = Some value, vc_regex_pattern = None,
                 vc_func = (op, Literal value)\<rparr>"
    by simp_all
  have sel: "vc_op c0 = op" "vc_verbose c0 = verbose" "vc_value c0 = Some value"
    by (simp_all add: c0)
  have new: "ValueConstraint_init L op value None (Some n) verbose = Inr (c0\<lparr>vc_name := Some n\<rparr>)"
    using v op by (simp add: ValueConstraint_init_def c0)
  show ?thesis
    unfolding ValueConstraint_merge_def
    by (simp add: na nb sel vc_get_value_def ebind_def new eq del: py_eq.simps)
qed

lemma ValueConstraint_merge_commutes:
  assumes init: "ValueConstraint_init L op value None name verbose = Inr c0"
    and n: "ValueConstraint_name L c0 = Inr n"
    and eq: "py_eq value value"
  shows "ValueConstraint_merge L (c0\<lparr>vc_total := ta, vc_failures := fa\<rparr>)
           (Some (c0\<lparr>vc_total := tb, vc_failures := fb\<rparr>))
         = ValueConstraint_merge L (c0\<lparr>vc_total := tb, vc_failures := fb\<rparr>)
           (Some (c0\<lparr>vc_total := ta, vc_failures := fa\<rparr>))"
proof -
  have n': "ValueConstraint_name L (c0\<lparr>vc_name := vc_name c0\<rparr>) = Inr n" using n by simp
  show ?thesis
    using ValueConstraint_merge_literal [OF init n' n' eq,
        where ta = ta and fa = fa and tb = tb and fb = fb]
      ValueConstraint_merge_literal [OF init n' n' eq,
        where ta = tb and fa = fb and tb = ta and fb = fa]
    by (simp add: add.commute)
qed

lemma ValueConstraint_merge_assoc:
  assumes init: "ValueConstraint_init L op value None name verbose = Inr c0"
    and n: "ValueConstraint_name L c0 = Inr n"
    and eq: "py_eq value value"
  shows "ebind (ValueConstraint_merge L (c0\<lparr>vc_total := ta, vc_failures := fa\<rparr>)
                  (Some (c0\<lparr>vc_total := tb, vc_failures := fb\<rparr>)))
           (\<lambda>ab. ValueConstraint_merge L ab (Some (c0\<lparr>vc_total := tc, vc_failures := fc\<rparr>)))
         = ebind (ValueConstraint_merge L (c0\<lparr>vc_total := tb, vc_failures := fb\<rparr>)
                  (Some (c0\<lparr>vc_total := tc, vc_failures := fc\<rparr>)))
           (\<lambda>bc. ValueConstraint_merge L (c0\<lparr>vc_total := ta, vc_failures := fa\<rparr>) (Some bc))"
proof -
  have n0: "ValueConstraint_name L (c0\<lparr>vc_name := vc_name c0\<rparr>) = Inr n" using n by simp
  have n1: "ValueConstraint_name L (c0\<lparr>vc_name := Some n\<rparr>) = Inr n"
    by (simp add: ValueConstraint_name_def)
  note m = ValueConstraint_merge_literal [OF init _ _ eq]
  have ab: "ValueConstraint_merge L (c0\<lparr>vc_total := ta, vc_failures := fa\<rparr>)
                  (Some (c0\<lparr>vc_total := tb, vc_failures := fb\<rparr>))
            = Inr (c0\<lparr>vc_name := Some n, vc_total := ta + tb, vc_failures := fa + fb\<rparr>)"
    using m [OF n0 n0, where ta = ta and fa = fa and tb = tb and fb = fb] by simp
  have bc: "ValueConstraint_merge L (c0\<lparr>vc_total := tb, vc_failures := fb\<rparr>)
                  (Some (c0\<lparr>vc_total := tc, vc_failures := fc\<rparr>))
            = Inr (c0\<lparr>vc_name := Some n, vc_total := tb + tc, vc_failures := fb + fc\<rparr>)"
    using m [OF n0 n0, where ta = tb and fa = fb and tb = tc and fb = fc] by simp
  have l: "ValueConstraint_merge L (c0\<lparr>vc_name := Some n, vc_total := ta + tb, vc_failures := fa + fb\<rparr>)
             (Some (c0\<lparr>vc_total := tc, vc_failures := fc\<rparr>))
           = Inr (c0\<lparr>vc_name := Some n, vc_total := ta + tb + tc, vc_failures := fa + fb + fc\<rparr>)"
    using m [OF n1 n0, where ta = "ta + tb" and fa = "fa + fb" and tb = tc and fb = fc] by simp
  have r: "ValueConstraint_merge L (c0\<lparr>vc_total := ta, vc_failures := fa\<rparr>)
             (Some (c0\<lparr>vc_name := Some n, vc_total := tb + tc, vc_failures := fb + fc\<rparr>))
           = Inr (c0\<lparr>vc_name := Some n, vc_total := ta + (tb + tc), vc_failures := fa + (fb + fc)\<rparr>)"
    using m [OF n0 n1, where ta = ta and fa = fa and tb = "tb + tc" and fb = "fb + fc"] by simp
  show ?thesis by (simp add: ab bc l r ebind_def add.assoc)
qed

text \<open>
  Two instances of one \<^verbatim>\<open>SummaryConstraint\<close> that differ in their counters merge to the
  constraint as constructed, with the sums of the counters, provided no operand and no
  member of the reference set is NaN (which equals nothing, itself included) and the
  reference set is not empty (the constructor refuses an empty set).
\<close>

lemma py_eq_refl: "py_eq x x = (x \<noteq> PFloat NaN)"
proof (cases x)
  case (PFloat f)
  then show ?thesis by (cases f) auto
qed auto

lemma sc_set_eq_refl: "PFloat NaN \<notin> set r \<Longrightarrow> sc_set_eq r r"
  unfolding sc_set_eq_def list_all_iff list_ex_iff
  using py_eq_refl by blast

lemma SummaryConstraint_merge_sums:
  assumes init: "SummaryConstraint_init L first_field op value upper_value second_field
             third_field reference_set name verbose = Inr c0"
    and n: "SummaryConstraint_name L c0 = Inr n"
    and nonan: "value \<noteq> PFloat NaN" "upper_value \<noteq> PFloat NaN"
      "second_field \<noteq> PFloat NaN" "third_field \<noteq> PFloat NaN"
      "\<forall>r. sc_reference_set c0 = Some r \<longrightarrow> PFloat NaN \<notin> set r \<and> r \<noteq> []"
  shows "SummaryConstraint_merge L (c0\<lparr>sc_total := ta, sc_failures := fa\<rparr>)
           (Some (c0\<lparr>sc_total := tb, sc_failures := fb\<rparr>))
         = Inr ((if is_set_op op
                 then c0\<lparr>sc_name := Some n, sc_value := PNone, sc_upper_value := PNone,
                         sc_second_field := PNone, sc_third_field := PNone\<rparr>
                 else c0\<lparr>sc_name := Some n\<rparr>)
                \<lparr>sc_total := ta + tb, sc_failures := fa + fb\<rparr>)"
proof -
  have eqs: "py_eq value value" "py_eq upper_value upper_value"
    "py_eq second_field second_field" "py_eq third_field third_field"
    using nonan(1-4) by (simp_all only: py_eq_refl not_False_eq_True)
  from init show ?thesis
  proof (cases rule: SummaryConstraint_init_cases)
    case (set_relation r rt st nt)
    have sel: "sc_op c0 = op" "sc_value c0 = value" "sc_first_field c0 = first_field"
      "sc_second_field c0 = second_field" "sc_reference_set c0 = Some r" "sc_verbose c0 = verbose"
      by (simp_all add: set_relation(11) sc_fresh_def)
    have r: "r \<noteq> []" using nonan(5) sel(5) by simp
    have req: "sc_set_eq r r" using nonan(5) sel(5) by (simp add: sc_set_eq_refl)
    have new: "SummaryConstraint_init L first_field op PNone PNone PNone PNone (RSet r) (Some n)
                 verbose
               = Inr (c0\<lparr>sc_name := Some n, sc_value := PNone, sc_upper_value := PNone,
                         sc_second_field := PNone, sc_third_field := PNone\<rparr>)"
      using set_relation(1,8,9,10) r
      by (simp add: SummaryConstraint_init_def ebind_def set_relation(11) sc_fresh_def
          case_prod_beta)
    show ?thesis
      unfolding SummaryConstraint_merge_def
      using set_relation(1)
      by (simp add: n sel eqs req new ebind_def attr_def del: py_eq.simps)
  next
    case between_values
    have noset: "\<not> is_set_op op" using between_values(1) by (simp add: is_set_op_def)
    have sel: "sc_op c0 = op" "sc_value c0 = value" "sc_first_field c0 = first_field"
      "sc_second_field c0 = second_field" "sc_upper_value c0 = upper_value"
      "sc_third_field c0 = third_field" "sc_verbose c0 = verbose"
      by (simp_all add: between_values(9) sc_fresh_def)
    have new: "SummaryConstraint_init L first_field op value upper_value second_field third_field
                 RNone (Some n) verbose = Inr (c0\<lparr>sc_name := Some n\<rparr>)"
      using noset between_values(1-8)
      by (simp add: SummaryConstraint_init_def ebind_def between_values(9) sc_fresh_def)
    show ?thesis
      unfolding SummaryConstraint_merge_def
      using noset between_values(1) new
      by (simp add: n sel eqs ebind_def del: py_eq.simps)
  next
    case between_fields
    have noset: "\<not> is_set_op op" using between_fields(1) by (simp add: is_set_op_def)
    have sel: "sc_op c0 = op" "sc_value c0 = value" "sc_first_field c0 = first_field"
      "sc_second_field c0 = second_field" "sc_upper_value c0 = upper_value"
      "sc_third_field c0 = third_field" "sc_verbose c0 = verbose"
      by (simp_all add: between_fields(8) sc_fresh_def)
    have new: "SummaryConstraint_init L first_field op value upper_value second_field third_field
                 RNone (Some n) verbose = Inr (c0\<lparr>sc_name := Some n\<rparr>)"
      using noset between_fields(1-7)
      by (simp add: SummaryConstraint_init_def ebind_def between_fields(8) sc_fresh_def)
    show ?thesis
      unfolding SummaryConstraint_merge_def
      using noset between_fields(1) new
      by (simp add: n sel eqs ebind_def del: py_eq.simps)
  next
    case literal
    have noset: "\<not> is_set_op op" and nobt: "op \<noteq> BTWN"
      using literal(1) by (auto simp: is_set_op_def in_summary_funcs_def)
    have sel: "sc_op c0 = op" "sc_value c0 = value" "sc_first_field c0 = first_field"
      "sc_second_field c0 = second_field" "sc_verbose c0 = verbose"
      by (simp_all add: literal(6) sc_fresh_def)
    have new: "SummaryConstraint_init L first_field op value PNone second_field PNone
                 RNone (Some n) verbose = Inr (c0\<lparr>sc_name := Some n\<rparr>)"
      using noset nobt literal(1-5)
      by (simp add: SummaryConstraint_init_def ebind_def literal(6) sc_fresh_def)
    show ?thesis
      unfolding SummaryConstraint_merge_def
      using noset nobt
      by (simp add: n sel eqs new ebind_def del: py_eq.simps)
  next
    case field
    have noset: "\<not> is_set_op op" and nobt: "op \<noteq> BTWN"
      using field(1) by (auto simp: is_set_op_def in_summary_funcs_def)
    have sel: "sc_op c0 = op" "sc_value c0 = value" "sc_first_field c0 = first_field"
      "sc_second_field c0 = second_field" "sc_verbose c0 = verbose"
      by (simp_all add: field(6) sc_fresh_def)
    have new: "SummaryConstraint_init L first_field op value PNone second_field PNone
                 RNone (Some n) verbose = Inr (c0\<lparr>sc_name := Some n\<rparr>)"
      using noset nobt field(1-5)
      by (simp add: SummaryConstraint_init_def ebind_def field(6) sc_fresh_def)
    show ?thesis
      unfolding SummaryConstraint_merge_def
      using noset nobt
      by (simp add: n sel eqs new ebind_def del: py_eq.simps)
  qed
qed

section \<open>Properties of the messages\<close>

text \<open>
  A \<^verbatim>\<open>ListValue\<close> holds a list unchanged when no member is an integer or an object it
  refuses; so \<open>operands_kept\<close> holds of every non-empty reference set of strings, floats,
  booleans and \<^verbatim>\<open>None\<close>, whatever the library.
\<close>

lemma ListValue_extend_keeps:
  "list_all ListValue_keeps r \<Longrightarrow> ListValue_extend L values r = Inr (values @ r)"
proof (induction r arbitrary: "values")
  case Nil
  then show ?case by simp
next
  case (Cons item rest)
  from Cons.prems have "ListValue_item L item = Inr item"
    by (cases item) simp_all
  with Cons show ?case by (simp add: ebind_def)
qed

text \<open>The round trip of a \<^verbatim>\<open>SummaryConstraint\<close>, shape by shape.\<close>

lemma SummaryConstraint_roundtrip_result:
  assumes init: "SummaryConstraint_init L first_field op value upper_value second_field
             third_field reference_set name verbose = Inr c0"
    and ok: "set_arg_ok reference_set"
    and n: "SummaryConstraint_name L c0 = Inr n"
    and kept: "operands_kept L c0"
  shows "\<exists>m. SummaryConstraint_to_protobuf L (c0\<lparr>sc_total := t, sc_failures := f\<rparr>) = Inr m
           \<and> SummaryConstraint_from_protobuf L m
               = Inr (Some (if is_set_op op
                            then c0\<lparr>sc_name := Some n, sc_value := PNone, sc_upper_value := PNone,
                                    sc_second_field := PNone, sc_third_field := PNone\<rparr>
                            else c0\<lparr>sc_name := Some n\<rparr>))"
proof -
  have n: "SummaryConstraint_name L (c0\<lparr>sc_total := t, sc_failures := f\<rparr>) = Inr n"
    using n by simp
  from init show ?thesis
proof (cases rule: SummaryConstraint_init_cases)
  case (set_relation r rt st nt)
  have r: "py_set r = r"
    using as_reference_set_distinct [OF ok set_relation(7)] by (simp add: py_set_distinct)
  have k: "r \<noteq> []" "ListValue_extend L [] r = Inr r"
    using kept set_relation(1)
    by (simp_all add: operands_kept_def set_relation(11) sc_fresh_def)
  have "SummaryConstraint_to_protobuf L (c0\<lparr>sc_total := t, sc_failures := f\<rparr>)
      = Inr \<lparr>sm_name = n, sm_first_field = first_field, sm_op = op,
               sm_verbose = verbose, sm_value = None, sm_second_field = None,
               sm_between = None, sm_reference_set = Some r\<rparr>"
    using n set_relation(1) k(2)
    by (simp add: SummaryConstraint_to_protobuf_def ebind_def attr_def set_relation(11)
        sc_fresh_def)
  moreover have "SummaryConstraint_from_protobuf L
       \<lparr>sm_name = n, sm_first_field = first_field, sm_op = op,
               sm_verbose = verbose, sm_value = None, sm_second_field = None,
               sm_between = None, sm_reference_set = Some r\<rparr>
     = Inr (Some (c0\<lparr>sc_name := Some n, sc_value := PNone, sc_upper_value := PNone,
                                    sc_second_field := PNone, sc_third_field := PNone\<rparr>))"
    using set_relation(1,8,9,10) r k(1)
    by (simp add: SummaryConstraint_from_protobuf_def HasField_def SummaryConstraint_init_def
        ebind_def set_relation(11) sc_fresh_def case_prod_beta)
  ultimately show ?thesis using set_relation(1) by simp
next
  case between_values
  have noset: "\<not> is_set_op op" using between_values(1) by (simp add: is_set_op_def)
  have k: "msg_field (field_value L) value = Inr (Some value)"
    "msg_field (field_value L) upper_value = Inr (Some upper_value)"
    using kept noset between_values(2,3)
    by (simp_all add: operands_kept_def kept_def msg_field_def ebind_def between_values(9)
        sc_fresh_def)
  have "SummaryConstraint_to_protobuf L (c0\<lparr>sc_total := t, sc_failures := f\<rparr>)
      = Inr \<lparr>sm_name = n, sm_first_field = first_field, sm_op = op,
               sm_verbose = verbose, sm_value = None, sm_second_field = None,
               sm_between = Some \<lparr>bm_lower_value = Some value, bm_upper_value = Some upper_value,
                                   bm_second_field = None, bm_third_field = None\<rparr>,
               sm_reference_set = None\<rparr>"
    using n noset between_values(1-5) k
    by (simp add: SummaryConstraint_to_protobuf_def ebind_def between_values(9) sc_fresh_def)
  moreover have "SummaryConstraint_from_protobuf L
       \<lparr>sm_name = n, sm_first_field = first_field, sm_op = op,
               sm_verbose = verbose, sm_value = None, sm_second_field = None,
               sm_between = Some \<lparr>bm_lower_value = Some value, bm_upper_value = Some upper_value,
                                   bm_second_field = None, bm_third_field = None\<rparr>,
               sm_reference_set = None\<rparr>
     = Inr (Some (c0\<lparr>sc_name := Some n\<rparr>))"
    using noset between_values(1-8)
    by (simp add: SummaryConstraint_from_protobuf_def HasField_def SummaryConstraint_init_def
        ebind_def between_values(9) sc_fresh_def)
  ultimately show ?thesis using noset by simp
next
  case between_fields
  have noset: "\<not> is_set_op op" using between_fields(1) by (simp add: is_set_op_def)
  have k: "msg_field (field_string L) second_field = Inr (Some second_field)"
    "msg_field (field_string L) third_field = Inr (Some third_field)"
    using kept noset between_fields(4,5)
    by (simp_all add: operands_kept_def kept_def msg_field_def ebind_def between_fields(8)
        sc_fresh_def)
  have "SummaryConstraint_to_protobuf L (c0\<lparr>sc_total := t, sc_failures := f\<rparr>)
      = Inr \<lparr>sm_name = n, sm_first_field = first_field, sm_op = op,
               sm_verbose = verbose, sm_value = None, sm_second_field = None,
               sm_between = Some \<lparr>bm_lower_value = None, bm_upper_value = None,
                                   bm_second_field = Some second_field,
                                   bm_third_field = Some third_field\<rparr>,
               sm_reference_set = None\<rparr>"
    using n noset between_fields(1-5) k
    by (simp add: SummaryConstraint_to_protobuf_def ebind_def between_fields(8) sc_fresh_def)
  moreover have "SummaryConstraint_from_protobuf L
       \<lparr>sm_name = n, sm_first_field = first_field, sm_op = op,
               sm_verbose = verbose, sm_value = None, sm_second_field = None,
               sm_between = Some \<lparr>bm_lower_value = None, bm_upper_value = None,
                                   bm_second_field = Some second_field,
                                   bm_third_field = Some third_field\<rparr>,
               sm_reference_set = None\<rparr>
     = Inr (Some (c0\<lparr>sc_name := Some n\<rparr>))"
    using noset between_fields(1-7)
    by (simp add: SummaryConstraint_from_protobuf_def HasField_def SummaryConstraint_init_def
        ebind_def between_fields(8) sc_fresh_def)
  ultimately show ?thesis using noset by simp
next
  case literal
  have noset: "\<not> is_set_op op" and nobt: "op \<noteq> BTWN"
    using literal(1) by (auto simp: is_set_op_def in_summary_funcs_def)
  have k: "msg_field (field_value L) value = Inr (Some value)"
    using kept noset literal(2)
    by (simp add: operands_kept_def kept_def msg_field_def ebind_def literal(6) sc_fresh_def)
  have "SummaryConstraint_to_protobuf L (c0\<lparr>sc_total := t, sc_failures := f\<rparr>)
      = Inr \<lparr>sm_name = n, sm_first_field = first_field, sm_op = op,
               sm_verbose = verbose, sm_value = Some value, sm_second_field = None,
               sm_between = None, sm_reference_set = None\<rparr>"
    using n noset nobt literal(2-5) k
    by (simp add: SummaryConstraint_to_protobuf_def ebind_def literal(6) sc_fresh_def)
  moreover have "SummaryConstraint_from_protobuf L
       \<lparr>sm_name = n, sm_first_field = first_field, sm_op = op,
               sm_verbose = verbose, sm_value = Some value, sm_second_field = None,
               sm_between = None, sm_reference_set = None\<rparr>
     = Inr (Some (c0\<lparr>sc_name := Some n\<rparr>))"
    using noset nobt literal(1-5)
    by (simp add: SummaryConstraint_from_protobuf_def HasField_def SummaryConstraint_init_def
        ebind_def literal(6) sc_fresh_def)
  ultimately show ?thesis using noset by simp
next
  case field
  have noset: "\<not> is_set_op op" and nobt: "op \<noteq> BTWN"
    using field(1) by (auto simp: is_set_op_def in_summary_funcs_def)
  have k: "msg_field (field_string L) second_field = Inr (Some second_field)"
    using kept noset field(4)
    by (simp add: operands_kept_def kept_def msg_field_def ebind_def field(6) sc_fresh_def)
  have "SummaryConstraint_to_protobuf L (c0\<lparr>sc_total := t, sc_failures := f\<rparr>)
      = Inr \<lparr>sm_name = n, sm_first_field = first_field, sm_op = op,
               sm_verbose = verbose, sm_value = None, sm_second_field = Some second_field,
               sm_between = None, sm_reference_set = None\<rparr>"
    using n noset nobt field(2-5) k
    by (simp add: SummaryConstraint_to_protobuf_def ebind_def field(6) sc_fresh_def)
  moreover have "SummaryConstraint_from_protobuf L
       \<lparr>sm_name = n, sm_first_field = first_field, sm_op = op,
               sm_verbose = verbose, sm_value = None, sm_second_field = Some second_field,
               sm_between = None, sm_reference_set = None\<rparr>
     = Inr (Some (c0\<lparr>sc_name := Some n\<rparr>))"
    using noset nobt field(1-5)
    by (simp add: SummaryConstraint_from_protobuf_def HasField_def SummaryConstraint_init_def
        ebind_def field(6) sc_fresh_def)
  ultimately show ?thesis using noset by simp
qed
qed

text \<open>The round trip of a \<^verbatim>\<open>ValueConstraint\<close> that holds a literal.\<close>

lemma ValueConstraint_roundtrip:
  assumes init: "ValueConstraint_init L op value None name verbose = Inr c0"
    and name: "ValueConstraint_name L c0 = Inr n"
    and kept: "field_value L value = Inr value"
  shows "\<exists>m. ValueConstraint_to_protobuf L (c0\<lparr>vc_total := t, vc_failures := f\<rparr>) = Inr m
           \<and> ValueConstraint_from_protobuf L unset m = Inr (c0\<lparr>vc_name := Some n\<rparr>)"
proof -
  from ValueConstraint_init_literal [OF init] have
    v: "value \<noteq> PNone" and op: "in_value_funcs op"
    and c0: "c0 = \<lparr>vc_name = name, vc_verbose = verbose, vc_op = op, vc_total = 0,
                 vc_failures = 0, vc_value = Some value, vc_regex_pattern = None,
                 vc_func = (op, Literal value)\<rparr>"
    by simp_all
  have "ValueConstraint_name L (c0\<lparr>vc_total := t, vc_failures := f\<rparr>) = Inr n"
    using name by simp
  then have "ValueConstraint_to_protobuf L (c0\<lparr>vc_total := t, vc_failures := f\<rparr>)
      = Inr \<lparr>vm_name = n, vm_op = op, vm_value = Some value, vm_regex_pattern = None,
             vm_verbose = verbose\<rparr>"
    using v kept by (simp add: ValueConstraint_to_protobuf_def ebind_def msg_field_def c0)
  moreover have "ValueConstraint_from_protobuf L unset
       \<lparr>vm_name = n, vm_op = op, vm_value = Some value, vm_regex_pattern = None,
             vm_verbose = verbose\<rparr> = Inr (c0\<lparr>vc_name := Some n\<rparr>)"
    using v op by (simp add: ValueConstraint_from_protobuf_def ValueConstraint_init_def c0)
  ultimately show ?thesis by simp
qed

text \<open>
  C3, as the code has it. The messages carry no counters, and a message does not hold
  every operand as it was given: a \<^verbatim>\<open>ListValue\<close> holds an integer member as a float. For
  every \<^verbatim>\<open>ValueConstraint\<close> holding a literal whose name can be rendered and for every
  \<^verbatim>\<open>SummaryConstraint\<close>, if the message keeps the operands (\<open>field_value\<close>,
  \<open>operands_kept\<close>) and a reference set is not empty, \<^verbatim>\<open>to_protobuf\<close> followed by
  \<^verbatim>\<open>from_protobuf\<close> gives the constraint as its constructor made it, under its rendered
  name: the operator, the operand shape, the operands (literal, fields, bounds, reference
  set with its derived sets and sketches) and the bound function are the same. The
  counters are not: whatever \<^verbatim>\<open>total\<close> and \<^verbatim>\<open>failures\<close> were, the result has those of a new
  constraint, 0 and 0. For a set relation the operands \<^verbatim>\<open>value\<close>, \<^verbatim>\<open>upper_value\<close>,
  \<^verbatim>\<open>second_field\<close> and \<^verbatim>\<open>third_field\<close>, which had to be falsy, come back as \<^verbatim>\<open>None\<close>.
\<close>

theorem roundtrip_keeps_operands_resets_counters:
  assumes vinit: "ValueConstraint_init L vop vvalue None vname vverbose = Inr vc0"
    and vn: "ValueConstraint_name L vc0 = Inr vn"
    and vkept: "field_value L vvalue = Inr vvalue"
    and sinit: "SummaryConstraint_init L first_field op value upper_value second_field
             third_field reference_set name verbose = Inr sc0"
    and ok: "set_arg_ok reference_set"
    and sn: "SummaryConstraint_name L sc0 = Inr sn"
    and skept: "operands_kept L sc0"
  shows "ebind (ValueConstraint_to_protobuf L (vc0\<lparr>vc_total := vt, vc_failures := vf\<rparr>))
           (ValueConstraint_from_protobuf L unset)
         = Inr (vc0\<lparr>vc_name := Some vn\<rparr>)
       \<and> vc_total vc0 = 0 \<and> vc_failures vc0 = 0
       \<and> ebind (SummaryConstraint_to_protobuf L (sc0\<lparr>sc_total := st, sc_failures := sf\<rparr>))
           (SummaryConstraint_from_protobuf L)
         = Inr (Some (if is_set_op op
                      then sc0\<lparr>sc_name := Some sn, sc_value := PNone, sc_upper_value := PNone,
                              sc_second_field := PNone, sc_third_field := PNone\<rparr>
                      else sc0\<lparr>sc_name := Some sn\<rparr>))
       \<and> sc_total sc0 = 0 \<and> sc_failures sc0 = 0"
proof -
  from ValueConstraint_roundtrip [OF vinit vn vkept, where t = vt and f = vf and unset = unset]
  have v: "ebind (ValueConstraint_to_protobuf L (vc0\<lparr>vc_total := vt, vc_failures := vf\<rparr>))
           (ValueConstraint_from_protobuf L unset) = Inr (vc0\<lparr>vc_name := Some vn\<rparr>)"
    by (auto simp: ebind_def)
  have v0: "vc_total vc0 = 0" "vc_failures vc0 = 0"
    using ValueConstraint_init_literal [OF vinit] by simp_all
  from SummaryConstraint_roundtrip_result [OF sinit ok sn skept, where t = st and f = sf]
  have s: "ebind (SummaryConstraint_to_protobuf L (sc0\<lparr>sc_total := st, sc_failures := sf\<rparr>))
           (SummaryConstraint_from_protobuf L)
         = Inr (Some (if is_set_op op
                      then sc0\<lparr>sc_name := Some sn, sc_value := PNone, sc_upper_value := PNone,
                              sc_second_field := PNone, sc_third_field := PNone\<rparr>
                      else sc0\<lparr>sc_name := Some sn\<rparr>))"
    by (auto simp: ebind_def)
  have s0: "sc_total sc0 = 0" "sc_failures sc0 = 0"
    using sinit by (cases rule: SummaryConstraint_init_cases; simp add: sc_fresh_def)+
  show ?thesis using v v0 s s0 by simp
qed

theorem roundtrip_keeps_operands_resets_counters_witness:
  "ValueConstraint_init exact_lib GT (PFloat (Fin 3)) None None False
     = Inr \<lparr>vc_name = None, vc_verbose = False, vc_op = GT, vc_total = 0, vc_failures = 0,
            vc_value = Some (PFloat (Fin 3)), vc_regex_pattern = None,
            vc_func = (GT, Literal (PFloat (Fin 3)))\<rparr>
   \<and> ValueConstraint_name exact_lib
        \<lparr>vc_name = None, vc_verbose = False, vc_op = GT, vc_total = 0, vc_failures = 0,
         vc_value = Some (PFloat (Fin 3)), vc_regex_pattern = None,
         vc_func = (GT, Literal (PFloat (Fin 3)))\<rparr>
     = Inr ''value GT #''
   \<and> field_value exact_lib (PFloat (Fin 3)) = Inr (PFloat (Fin 3))
   \<and> SummaryConstraint_init exact_lib ''distinct_column_values'' IN_SET PNone PNone PNone PNone
        (RSet [PStr ''a'', PFloat (Fin (1/2))]) None False
     = Inr ((sc_fresh ''distinct_column_values'' IN_SET PNone PNone PNone PNone None False)
             \<lparr>sc_reference_set := Some [PStr ''a'', PFloat (Fin (1/2))],
              sc_ref_string_set := Some [PStr ''a''],
              sc_ref_numbers_set := Some [PFloat (Fin (1/2))],
              sc_reference_theta_sketch := Some (Theta [PStr ''a'', PFloat (Fin (1/2))]),
              sc_string_theta_sketch := Some (Theta [PStr ''a'']),
              sc_numbers_theta_sketch := Some (Theta [PFloat (Fin (1/2))])\<rparr>)
   \<and> set_arg_ok (RSet [PStr ''a'', PFloat (Fin (1/2))])
   \<and> SummaryConstraint_name exact_lib
        ((sc_fresh ''distinct_column_values'' IN_SET PNone PNone PNone PNone None False)
             \<lparr>sc_reference_set := Some [PStr ''a'', PFloat (Fin (1/2))],
              sc_ref_string_set := Some [PStr ''a''],
              sc_ref_numbers_set := Some [PFloat (Fin (1/2))],
              sc_reference_theta_sketch := Some (Theta [PStr ''a'', PFloat (Fin (1/2))]),
              sc_string_theta_sketch := Some (Theta [PStr ''a'']),
              sc_numbers_theta_sketch := Some (Theta [PFloat (Fin (1/2))])\<rparr>)
     = Inr ''summary distinct_column_values IN_SET {a#}''
   \<and> operands_kept exact_lib
        ((sc_fresh ''distinct_column_values'' IN_SET PNone PNone PNone PNone None False)
             \<lparr>sc_reference_set := Some [PStr ''a'', PFloat (Fin (1/2))],
              sc_ref_string_set := Some [PStr ''a''],
              sc_ref_numbers_set := Some [PFloat (Fin (1/2))],
              sc_reference_theta_sketch := Some (Theta [PStr ''a'', PFloat (Fin (1/2))]),
              sc_string_theta_sketch := Some (Theta [PStr ''a'']),
              sc_numbers_theta_sketch := Some (Theta [PFloat (Fin (1/2))])\<rparr>)
   \<and> ebind (ValueConstraint_to_protobuf exact_lib
              \<lparr>vc_name = None, vc_verbose = False, vc_op = GT, vc_total = 2, vc_failures = 1,
               vc_value = Some (PFloat (Fin 3)), vc_regex_pattern = None,
               vc_func = (GT, Literal (PFloat (Fin 3)))\<rparr>)
       (ValueConstraint_from_protobuf exact_lib (PFloat (Fin 0)))
     = Inr \<lparr>vc_name = Some ''value GT #'', vc_verbose = False, vc_op = GT, vc_total = 0,
            vc_failures = 0, vc_value = Some (PFloat (Fin 3)), vc_regex_pattern = None,
            vc_func = (GT, Literal (PFloat (Fin 3)))\<rparr>
   \<and> ebind (SummaryConstraint_to_protobuf exact_lib
              ((sc_fresh ''distinct_column_values'' IN_SET PNone PNone PNone PNone None False)
                 \<lparr>sc_reference_set := Some [PStr ''a'', PFloat (Fin (1/2))],
                  sc_ref_string_set := Some [PStr ''a''],
                  sc_ref_numbers_set := Some [PFloat (Fin (1/2))],
                  sc_reference_theta_sketch := Some (Theta [PStr ''a'', PFloat (Fin (1/2))]),
                  sc_string_theta_sketch := Some (Theta [PStr ''a'']),
                  sc_numbers_theta_sketch := Some (Theta [PFloat (Fin (1/2))]),
                  sc_total := 2, sc_failures := 1\<rparr>))
       (SummaryConstraint_from_protobuf exact_lib)
     = Inr (Some ((sc_fresh ''distinct_column_values'' IN_SET PNone PNone PNone PNone None False)
                    \<lparr>sc_reference_set := Some [PStr ''a'', PFloat (Fin (1/2))],
                     sc_ref_string_set := Some [PStr ''a''],
                     sc_ref_numbers_set := Some [PFloat (Fin (1/2))],
                     sc_reference_theta_sketch := Some (Theta [PStr ''a'', PFloat (Fin (1/2))]),
                     sc_string_theta_sketch := Some (Theta [PStr ''a'']),
                     sc_numbers_theta_sketch := Some (Theta [PFloat (Fin (1/2))]),
                     sc_name := Some ''summary distinct_column_values IN_SET {a#}''\<rparr>))"
proof -
  have h1: "ValueConstraint_init exact_lib GT (PFloat (Fin 3)) None None False
     = Inr \<lparr>vc_name = None, vc_verbose = False, vc_op = GT, vc_total = 0, vc_failures = 0,
            vc_value = Some (PFloat (Fin 3)), vc_regex_pattern = None,
            vc_func = (GT, Literal (PFloat (Fin 3)))\<rparr>"
    by (simp add: ValueConstraint_init_def in_value_funcs_def)
  have h2: "ValueConstraint_name exact_lib
        \<lparr>vc_name = None, vc_verbose = False, vc_op = GT, vc_total = 0, vc_failures = 0,
         vc_value = Some (PFloat (Fin 3)), vc_regex_pattern = None,
         vc_func = (GT, Literal (PFloat (Fin 3)))\<rparr>
     = Inr ''value GT #''"
    by (simp add: ValueConstraint_name_def exact_lib_def)
  have h3: "field_value exact_lib (PFloat (Fin 3)) = Inr (PFloat (Fin 3))"
    by (simp add: exact_lib_def)
  have h4: "SummaryConstraint_init exact_lib ''distinct_column_values'' IN_SET PNone PNone PNone
        PNone (RSet [PStr ''a'', PFloat (Fin (1/2))]) None False
     = Inr ((sc_fresh ''distinct_column_values'' IN_SET PNone PNone PNone PNone None False)
             \<lparr>sc_reference_set := Some [PStr ''a'', PFloat (Fin (1/2))],
              sc_ref_string_set := Some [PStr ''a''],
              sc_ref_numbers_set := Some [PFloat (Fin (1/2))],
              sc_reference_theta_sketch := Some (Theta [PStr ''a'', PFloat (Fin (1/2))]),
              sc_string_theta_sketch := Some (Theta [PStr ''a'']),
              sc_numbers_theta_sketch := Some (Theta [PFloat (Fin (1/2))])\<rparr>)"
    by (simp add: SummaryConstraint_init_def is_set_op_def ebind_def exact_lib_def
        get_string_and_numbers_sets_def py_set_add_def create_theta_sketch_def sc_fresh_def)
  have h5: "set_arg_ok (RSet [PStr ''a'', PFloat (Fin (1/2))])" by simp
  have h6: "SummaryConstraint_name exact_lib
        ((sc_fresh ''distinct_column_values'' IN_SET PNone PNone PNone PNone None False)
             \<lparr>sc_reference_set := Some [PStr ''a'', PFloat (Fin (1/2))],
              sc_ref_string_set := Some [PStr ''a''],
              sc_ref_numbers_set := Some [PFloat (Fin (1/2))],
              sc_reference_theta_sketch := Some (Theta [PStr ''a'', PFloat (Fin (1/2))]),
              sc_string_theta_sketch := Some (Theta [PStr ''a'']),
              sc_numbers_theta_sketch := Some (Theta [PFloat (Fin (1/2))])\<rparr>)
     = Inr ''summary distinct_column_values IN_SET {a#}''"
    by (simp add: SummaryConstraint_name_def is_set_op_def sc_fresh_def exact_lib_def attr_def
        ebind_def)
  have h7: "operands_kept exact_lib
        ((sc_fresh ''distinct_column_values'' IN_SET PNone PNone PNone PNone None False)
             \<lparr>sc_reference_set := Some [PStr ''a'', PFloat (Fin (1/2))],
              sc_ref_string_set := Some [PStr ''a''],
              sc_ref_numbers_set := Some [PFloat (Fin (1/2))],
              sc_reference_theta_sketch := Some (Theta [PStr ''a'', PFloat (Fin (1/2))]),
              sc_string_theta_sketch := Some (Theta [PStr ''a'']),
              sc_numbers_theta_sketch := Some (Theta [PFloat (Fin (1/2))])\<rparr>)"
    by (simp add: operands_kept_def is_set_op_def sc_fresh_def ebind_def)
  show ?thesis
    using roundtrip_keeps_operands_resets_counters [OF h1 h2 h3 h4 h5 h6 h7,
        where vt = 2 and vf = 1 and unset = "PFloat (Fin 0)" and st = 2 and sf = 1]
      h1 h2 h3 h4 h5 h6 h7
    by (simp add: is_set_op_def sc_fresh_def)
qed

text \<open>
  The claim as stated fails on the counters: a constraint that has seen one value has
  \<^verbatim>\<open>total\<close> 1, and the constraint decoded from its message has \<^verbatim>\<open>total\<close> 0.
\<close>

theorem roundtrip_resets_total_counterexample:
  "ebind (ValueConstraint_init exact_lib GT (PFloat (Fin 3)) None None False) (\<lambda>c.
     let c1 = fst (ValueConstraint_update exact_lib c (PInt 5)) in
     ebind (ValueConstraint_to_protobuf exact_lib c1) (\<lambda>msg.
     ebind (ValueConstraint_from_protobuf exact_lib (PFloat (Fin 0)) msg) (\<lambda>c2.
       Inr (vc_total c1, vc_total c2))))
   = Inr (1, 0)"
  by (simp add: ebind_def ValueConstraint_init_def in_value_funcs_def ValueConstraint_update_def
      py_gt_def py_cmp_def ValueConstraint_to_protobuf_def ValueConstraint_name_def
      msg_field_def ValueConstraint_from_protobuf_def exact_lib_def)

text \<open>
  Where the message does not keep the operands, the round trip changes them or fails. An
  integer member of a reference set comes back as a float, so the decoded reference set,
  numeric subset and sketches are not the ones of the original. A constraint whose
  reference set came from an empty iterator is constructed, with an empty reference set,
  and the constructor refuses what its message decodes to.
\<close>

lemma int_member_comes_back_as_float:
  "ebind (SummaryConstraint_init exact_lib ''distinct_column_values'' IN_SET PNone PNone PNone
            PNone (RSet [PInt 2]) None False) (\<lambda>c.
     ebind (SummaryConstraint_to_protobuf exact_lib c) (\<lambda>msg.
     ebind (SummaryConstraint_from_protobuf exact_lib msg) (\<lambda>c2.
       Inr (sc_ref_numbers_set c, map_option sc_ref_numbers_set c2))))
   = Inr (Some [PInt 2], Some (Some [PFloat (Fin 2)]))"
  by (simp add: SummaryConstraint_init_def is_set_op_def ebind_def exact_lib_def
      get_string_and_numbers_sets_def py_set_add_def py_set_def create_theta_sketch_def
      sc_fresh_def SummaryConstraint_to_protobuf_def attr_def SummaryConstraint_name_def
      SummaryConstraint_from_protobuf_def HasField_def)

lemma empty_iterator_does_not_round_trip:
  "ebind (SummaryConstraint_init exact_lib ''distinct_column_values'' IN_SET PNone PNone PNone
            PNone (RIter []) None False) (\<lambda>c.
     Inr (sc_reference_set c,
          ebind (SummaryConstraint_to_protobuf exact_lib c)
            (SummaryConstraint_from_protobuf exact_lib)))
   = Inr (Some [], Inl ValueError)"
  by (simp add: SummaryConstraint_init_def is_set_op_def ebind_def exact_lib_def
      get_string_and_numbers_sets_def py_set_def create_theta_sketch_def
      sc_fresh_def SummaryConstraint_to_protobuf_def attr_def SummaryConstraint_name_def
      SummaryConstraint_from_protobuf_def HasField_def)

text \<open>
  A constraint built from a pattern does not come back with it, whatever reading the
  unset field \<^verbatim>\<open>value\<close> gives: \<^verbatim>\<open>from_protobuf\<close> passes no pattern to the constructor.
\<close>

lemma pattern_roundtrip_lost:
  assumes "ValueConstraint_init L op PNone (Some p) name verbose = Inr c"
      and "ValueConstraint_to_protobuf L c = Inr m"
      and "ValueConstraint_from_protobuf L unset m = Inr c'"
    shows "vc_regex_pattern c = Some p \<and> vc_regex_pattern c' = None"
  using assms
  by (auto simp: ValueConstraint_init_def ValueConstraint_to_protobuf_def ebind_def attr_def
      ValueConstraint_from_protobuf_def split: if_splits sum.splits)

end
